theory Spec2Isabelle
  imports Main "HOL-Library.List_Lexorder" "HOL-Library.Char_ord"
begin

section \<open>JavaScript values\<close>

text \<open>
  The application is untyped JavaScript: what the backend answers, what the browser
  storage holds and what the reducers keep are JSON values. Numbers are kept as
  integers (identifiers and counters are the only numbers these functions meet). The
  properties of an object are listed in enumeration order, each key once.
\<close>

datatype json =
    JUndefined
  | JNull
  | JBool bool
  | JNum int
  | JStr string
  | JArr "json list"
  | JObj "(string \<times> json) list"

text \<open>Truthiness, as \<open>!x\<close>, \<open>x || y\<close> and \<open>if (x)\<close> read it.\<close>

fun truthy :: "json \<Rightarrow> bool" where
  "truthy JUndefined = False"
| "truthy JNull = False"
| "truthy (JBool b) = b"
| "truthy (JNum n) = (n \<noteq> 0)"
| "truthy (JStr s) = (s \<noteq> [])"
| "truthy (JArr xs) = True"
| "truthy (JObj kvs) = True"

text \<open>\<open>a || b\<close>\<close>

definition or_else :: "json \<Rightarrow> json \<Rightarrow> json" where
  "or_else a b = (if truthy a then a else b)"

text \<open>
  \<open>x.k\<close> and \<open>x?.k\<close> for the property names used here (none of them is a method or
  \<open>length\<close>): the own property of an object, undefined on any other value. Names
  that every object inherits (\<open>constructor\<close>, \<open>toString\<close>) are not column or field names
  here and read as undefined. On null and undefined \<open>x.k\<close> raises; every such read in
  the sources is guarded or optional.
\<close>

fun get_prop :: "json \<Rightarrow> string \<Rightarrow> json" where
  "get_prop (JObj kvs) k = (case map_of kvs k of None \<Rightarrow> JUndefined | Some v \<Rightarrow> v)"
| "get_prop v k = JUndefined"

fun is_array :: "json \<Rightarrow> bool" where
  "is_array (JArr xs) = True"
| "is_array v = False"

fun nullish :: "json \<Rightarrow> bool" where
  "nullish JUndefined = True"
| "nullish JNull = True"
| "nullish v = False"

subsection \<open>Strings\<close>

definition digit_char :: "nat \<Rightarrow> char" where
  "digit_char d = ''0123456789'' ! d"

fun digits_of :: "nat \<Rightarrow> string" where
  "digits_of n =
     (if n < 10 then [digit_char n] else digits_of (n div 10) @ [digit_char (n mod 10)])"

text \<open>\<open>Array.prototype.join\<close> on strings.\<close>

fun join :: "string \<Rightarrow> string list \<Rightarrow> string" where
  "join sep [] = []"
| "join sep [s] = s"
| "join sep (s # t # ss) = s @ sep @ join sep (t # ss)"

text \<open>String conversion, as string concatenation and template literals apply it.\<close>

fun js_toString :: "json \<Rightarrow> string" where
  "js_toString JUndefined = ''undefined''"
| "js_toString JNull = ''null''"
| "js_toString (JBool b) = (if b then ''true'' else ''false'')"
| "js_toString (JNum n) = (if n < 0 then CHR ''-'' # digits_of (nat (- n)) else digits_of (nat n))"
| "js_toString (JStr s) = s"
| "js_toString (JArr xs) =
     join '','' (map (\<lambda>v. if v = JUndefined \<or> v = JNull then [] else js_toString v) xs)"
| "js_toString (JObj kvs) = ''[object Object]''"

text \<open>
  \<open>toLowerCase\<close> on the ASCII letters (a \<open>char\<close> is a byte); letters outside ASCII,
  accented capitals among them, are left as they are.
\<close>

definition toLowerCase_char :: "char \<Rightarrow> char" where
  "toLowerCase_char c =
     (case map_of (zip ''ABCDEFGHIJKLMNOPQRSTUVWXYZ'' ''abcdefghijklmnopqrstuvwxyz'') c of
        Some d \<Rightarrow> d
      | None \<Rightarrow> c)"

definition toLowerCase :: "string \<Rightarrow> string" where
  "toLowerCase s = map toLowerCase_char s"

text \<open>\<open>s.includes(sub)\<close>: \<open>sub\<close> occurs in \<open>s\<close> as a contiguous run.\<close>

fun includes_str :: "string \<Rightarrow> string \<Rightarrow> bool" where
  "includes_str [] sub = (sub = [])"
| "includes_str (c # cs) sub = (take (length sub) (c # cs) = sub \<or> includes_str cs sub)"


section \<open>The HTTP client (src/api/axios.js)\<close>

record request_config =
  http_method :: string
  url :: string
  req_data :: json

record http_response =
  status_code :: nat
  data :: json

text \<open>
  What a rejected request carries: \<open>error.response\<close> (absent on a transport failure or
  on an \<open>Error\<close> made by the client) and \<open>error.message\<close>.
\<close>

record api_error =
  response :: "http_response option"
  message :: string

text \<open>The backend: what it answers to a request that is really sent.\<close>

type_synonym network = "request_config \<Rightarrow> api_error + http_response"

definition methodsRequiringCSRF :: "string list" where
  "methodsRequiringCSRF = [''post'', ''put'', ''patch'', ''delete'']"

definition csrf_cookie_path :: string where
  "csrf_cookie_path = ''/sanctum/csrf-cookie''"

definition requires_csrf :: "request_config \<Rightarrow> bool" where
  "requires_csrf config = (toLowerCase (http_method config) \<in> set methodsRequiringCSRF)"

definition is_csrf_cookie_request :: "request_config \<Rightarrow> bool" where
  "is_csrf_cookie_request config = includes_str (url config) csrf_cookie_path"

text \<open>\<open>apiClient.get('/sanctum/csrf-cookie')\<close>: the priming request.\<close>

definition csrf_cookie_request :: request_config where
  "csrf_cookie_request = \<lparr>http_method = ''get'', url = csrf_cookie_path, req_data = JUndefined\<rparr>"

definition csrf_failure :: api_error where
  "csrf_failure = \<lparr>response = None, message = ''Failed to obtain CSRF token.''\<rparr>"

text \<open>
  A call through \<open>apiClient\<close>: the request interceptor runs first, the request is sent
  only if the interceptor returns the config, and the response interceptor passes a
  response on and rejects with the same error (its 401 branch only logs). The
  interceptor's priming call goes through \<open>apiClient\<close> itself, hence the recursion.
  The result is the list of requests sent, in order, and the outcome of the call.
\<close>

function apiClient_request ::
  "network \<Rightarrow> request_config \<Rightarrow> request_config list \<times> (api_error + http_response)" where
  "apiClient_request net config =
     (if requires_csrf config then
        (if \<not> is_csrf_cookie_request config then
           (case apiClient_request net csrf_cookie_request of
              (sent, Inl e) \<Rightarrow> (sent, Inl csrf_failure)
            | (sent, Inr r) \<Rightarrow> (sent @ [config], net config))
         else ([config], net config))
      else ([config], net config))"
  by pat_completeness auto
termination
  by (relation "measure (\<lambda>(net, config). if requires_csrf config then 1 else 0)")
     (auto simp: requires_csrf_def csrf_cookie_request_def methodsRequiringCSRF_def
        toLowerCase_def toLowerCase_char_def)

declare apiClient_request.simps [simp del]

definition apiClient_get :: "network \<Rightarrow> string \<Rightarrow> request_config list \<times> (api_error + http_response)" where
  "apiClient_get net u = apiClient_request net \<lparr>http_method = ''get'', url = u, req_data = JUndefined\<rparr>"

definition apiClient_post ::
  "network \<Rightarrow> string \<Rightarrow> json \<Rightarrow> request_config list \<times> (api_error + http_response)" where
  "apiClient_post net u d = apiClient_request net \<lparr>http_method = ''post'', url = u, req_data = d\<rparr>"

definition apiClient_delete :: "network \<Rightarrow> string \<Rightarrow> request_config list \<times> (api_error + http_response)" where
  "apiClient_delete net u = apiClient_request net \<lparr>http_method = ''delete'', url = u, req_data = JUndefined\<rparr>"


section \<open>The session store (src/features/auth/slices/authSlice.js)\<close>

subsection \<open>Browser storage\<close>

text \<open>
  The two storage scopes of the browser: \<open>localStorage\<close> (durable) and
  \<open>sessionStorage\<close> (tab-scoped). A key holds the text \<open>JSON.stringify\<close> made of a
  value; the scope is kept as the map from a key to that value. An entry \<open>JUndefined\<close>
  is a text that does not parse (\<open>JSON.stringify(undefined)\<close> is stored as the text
  "undefined"): the key is present and reads as null. Writes and removals succeed
  (the \<open>catch\<close> branches of the helpers only log).
\<close>

record browser_storage =
  localStorage :: "string \<rightharpoonup> json"
  sessionStorage :: "string \<rightharpoonup> json"

definition STORAGE_KEYS_USER :: string where
  "STORAGE_KEYS_USER = ''user''"

definition STORAGE_KEYS_REMEMBER_ME :: string where
  "STORAGE_KEYS_REMEMBER_ME = ''remember_me''"

text \<open>
  The helpers take the scope as their last parameter \<open>rememberMe\<close>; a call that leaves
  it out passes \<open>JUndefined\<close>.
\<close>

definition getStorage :: "json \<Rightarrow> browser_storage \<Rightarrow> (string \<rightharpoonup> json)" where
  "getStorage rememberMe st = (if truthy rememberMe then localStorage st else sessionStorage st)"

definition getStorageItem :: "string \<Rightarrow> json \<Rightarrow> browser_storage \<Rightarrow> json" where
  "getStorageItem k rememberMe st =
     (case getStorage rememberMe st k of
        None \<Rightarrow> JNull
      | Some v \<Rightarrow> (if v = JUndefined then JNull else v))"

definition setStorageItem :: "string \<Rightarrow> json \<Rightarrow> json \<Rightarrow> browser_storage \<Rightarrow> browser_storage" where
  "setStorageItem k v rememberMe st =
     (if truthy rememberMe then st\<lparr>localStorage := (localStorage st)(k \<mapsto> v)\<rparr>
      else st\<lparr>sessionStorage := (sessionStorage st)(k \<mapsto> v)\<rparr>)"

definition removeStorageItem :: "string \<Rightarrow> json \<Rightarrow> browser_storage \<Rightarrow> browser_storage" where
  "removeStorageItem k rememberMe st =
     (if truthy rememberMe then st\<lparr>localStorage := (localStorage st)(k := None)\<rparr>
      else st\<lparr>sessionStorage := (sessionStorage st)(k := None)\<rparr>)"

subsection \<open>Error messages and user data\<close>

text \<open>\<open>Object.values\<close> of a truthy value.\<close>

fun object_values :: "json \<Rightarrow> json list" where
  "object_values (JObj kvs) = map snd kvs"
| "object_values (JArr xs) = xs"
| "object_values (JStr s) = map (\<lambda>c. JStr [c]) s"
| "object_values v = []"

text \<open>\<open>Array.prototype.flat()\<close>: one level.\<close>

fun flat :: "json list \<Rightarrow> json list" where
  "flat [] = []"
| "flat (JArr ys # xs) = ys @ flat xs"
| "flat (v # xs) = v # flat xs"

text \<open>\<open>.filter(msg => typeof msg === 'string')\<close>\<close>

fun filter_strings :: "json list \<Rightarrow> string list" where
  "filter_strings [] = []"
| "filter_strings (JStr s # xs) = s # filter_strings xs"
| "filter_strings (v # xs) = filter_strings xs"

definition getLaravelErrorMessage :: "api_error \<Rightarrow> string \<Rightarrow> json" where
  "getLaravelErrorMessage err defaultMessage =
     (let fallback = JStr (if message err \<noteq> [] then message err else defaultMessage) in
      case response err of
        None \<Rightarrow> fallback
      | Some r \<Rightarrow>
          (if truthy (data r) then
             (if truthy (get_prop (data r) ''errors'') then
                JStr (join '' '' (filter_strings (flat (object_values (get_prop (data r) ''errors'')))))
              else if truthy (get_prop (data r) ''message'') then get_prop (data r) ''message''
              else fallback)
           else fallback))"

definition prepareUserData :: "json \<Rightarrow> json" where
  "prepareUserData laravelUser =
     (if \<not> truthy laravelUser then JNull
      else JObj [(''id'', get_prop laravelUser ''id''),
                 (''name'', get_prop laravelUser ''name''),
                 (''email'', get_prop laravelUser ''email''),
                 (''roles'', or_else (get_prop laravelUser ''roles'') (JArr [])),
                 (''permissions'', or_else (get_prop laravelUser ''permissions'') (JArr []))])"

subsection \<open>Thunks\<close>

text \<open>
  A thunk's payload creator takes the backend, its arguments (the fields the source
  destructures from its argument object) and the storage. It returns the storage as it
  leaves it and either the value given to \<open>rejectWithValue\<close> (\<open>Inl\<close>) or the payload it
  returns (\<open>Inr\<close>). Every exception of its body reaches its own \<open>catch\<close>.
\<close>

definition fulfilled_payload :: "json \<Rightarrow> json \<Rightarrow> json" where
  "fulfilled_payload user rememberMe =
     JObj [(''user'', user), (''isAuthenticated'', JBool True), (''rememberMe'', rememberMe)]"

text \<open>The calls the thunks make, each with the outcome the thunk awaits.\<close>

definition post_register :: "network \<Rightarrow> json \<Rightarrow> json \<Rightarrow> json \<Rightarrow> json \<Rightarrow> api_error + http_response" where
  "post_register net name email password password_confirmation =
     snd (apiClient_post net ''/register''
            (JObj [(''name'', name), (''email'', email), (''password'', password),
                   (''password_confirmation'', password_confirmation)]))"

definition post_credentials :: "network \<Rightarrow> json \<Rightarrow> json \<Rightarrow> json \<Rightarrow> api_error + http_response" where
  "post_credentials net email password rememberMe =
     snd (apiClient_post net ''/login''
            (JObj [(''email'', email), (''password'', password), (''remember'', rememberMe)]))"

definition get_profile :: "network \<Rightarrow> string \<Rightarrow> api_error + http_response" where
  "get_profile net u = snd (apiClient_get net u)"

definition post_logout :: "network \<Rightarrow> api_error + http_response" where
  "post_logout net = snd (apiClient_post net ''/logout'' JUndefined)"

definition signup ::
  "network \<Rightarrow> json \<Rightarrow> json \<Rightarrow> json \<Rightarrow> json \<Rightarrow> browser_storage \<Rightarrow> browser_storage \<times> (json + json)" where
  "signup net name email password password_confirmation st =
     (case post_register net name email password password_confirmation of
        Inl e \<Rightarrow> (st, Inl (getLaravelErrorMessage e ''Signup failed. Please try again.''))
      | Inr registered \<Rightarrow>
          (case get_profile net ''/user'' of
             Inl e \<Rightarrow> (st, Inl (getLaravelErrorMessage e ''Signup failed. Please try again.''))
           | Inr userResponse \<Rightarrow>
               (let user = prepareUserData (data userResponse) in
                if \<not> truthy user then (st, Inl (JStr ''User data not found after signup.''))
                else
                  (let rememberMe = JBool True;
                       st1 = setStorageItem STORAGE_KEYS_REMEMBER_ME rememberMe JUndefined st;
                       st2 = setStorageItem STORAGE_KEYS_USER user rememberMe st1
                   in (st2, Inr (fulfilled_payload user rememberMe))))))"

text \<open>\<open>rememberMe = false\<close> is the default of the destructuring, taken when the field is undefined.\<close>

definition login ::
  "network \<Rightarrow> json \<Rightarrow> json \<Rightarrow> json \<Rightarrow> browser_storage \<Rightarrow> browser_storage \<times> (json + json)" where
  "login net email password rememberMe_arg st =
     (let rememberMe = (if rememberMe_arg = JUndefined then JBool False else rememberMe_arg) in
      case post_credentials net email password rememberMe of
        Inl e \<Rightarrow> (st, Inl (getLaravelErrorMessage e ''Login failed. Please check your credentials.''))
      | Inr loggedIn \<Rightarrow>
          (case get_profile net ''/api/user'' of
             Inl e \<Rightarrow>
               (st, Inl (getLaravelErrorMessage e ''Login failed. Please check your credentials.''))
           | Inr userResponse \<Rightarrow>
               (let user = prepareUserData (data userResponse) in
                if \<not> truthy user then (st, Inl (JStr ''User data not found after login.''))
                else
                  (let st1 = setStorageItem STORAGE_KEYS_REMEMBER_ME rememberMe JUndefined st;
                       st2 = (if truthy rememberMe
                              then removeStorageItem STORAGE_KEYS_USER (JBool False) st1
                              else removeStorageItem STORAGE_KEYS_USER (JBool True) st1);
                       st3 = setStorageItem STORAGE_KEYS_USER user rememberMe st2
                   in (st3, Inr (fulfilled_payload user rememberMe))))))"

text \<open>The \<open>catch\<close> branch of \<open>checkAuth\<close>, whatever was thrown.\<close>

definition checkAuth_failed :: "browser_storage \<Rightarrow> browser_storage \<times> (json + json)" where
  "checkAuth_failed st =
     (let st1 = removeStorageItem STORAGE_KEYS_USER (JBool True) st;
          st2 = removeStorageItem STORAGE_KEYS_USER (JBool False) st1;
          st3 = removeStorageItem STORAGE_KEYS_REMEMBER_ME JUndefined st2
      in (st3, Inl (JStr ''User not authenticated.'')))"

definition checkAuth :: "network \<Rightarrow> browser_storage \<Rightarrow> browser_storage \<times> (json + json)" where
  "checkAuth net st =
     (case get_profile net ''/user'' of
        Inl e \<Rightarrow> checkAuth_failed st
      | Inr userResponse \<Rightarrow>
          (let user = prepareUserData (data userResponse) in
           if \<not> truthy user then checkAuth_failed st
           else
             (let rememberMe =
                    or_else (getStorageItem STORAGE_KEYS_REMEMBER_ME (JBool True) st) (JBool False);
                  st1 = setStorageItem STORAGE_KEYS_USER user rememberMe st
              in (st1, Inr (fulfilled_payload user rememberMe)))))"

subsection \<open>The slice\<close>

datatype request_status = idle | loading | succeeded | failed

record auth_state =
  user :: json
  isAuthenticated :: bool
  rememberMe :: json
  status :: request_status
  error :: json

definition initialState :: "browser_storage \<Rightarrow> auth_state" where
  "initialState st =
     (let initialRememberMe =
            or_else (getStorageItem STORAGE_KEYS_REMEMBER_ME (JBool True) st) (JBool False);
          initialUser = getStorageItem STORAGE_KEYS_USER initialRememberMe st
      in \<lparr>user = initialUser, isAuthenticated = truthy initialUser,
          rememberMe = initialRememberMe, status = idle, error = JNull\<rparr>)"

datatype thunk_name = Signup | Login | CheckAuth | LogoutUser

datatype auth_action =
    LogoutClient
  | ClearError
  | Pending thunk_name
  | Fulfilled thunk_name json
  | Rejected thunk_name json

text \<open>
  The reducer, on the storage and the session: \<open>logoutClient\<close> clears the storage from
  inside the reducer. For an action of a thunk the case reducers come first, then the
  matchers in the order they were added.
\<close>

fun authReducer :: "auth_action \<Rightarrow> browser_storage \<times> auth_state \<Rightarrow> browser_storage \<times> auth_state" where
  "authReducer LogoutClient (st, s) =
     (removeStorageItem STORAGE_KEYS_REMEMBER_ME JUndefined
        (removeStorageItem STORAGE_KEYS_USER (JBool False)
           (removeStorageItem STORAGE_KEYS_USER (JBool True) st)),
      s\<lparr>user := JNull, isAuthenticated := False, rememberMe := JBool False,
        status := idle, error := JNull\<rparr>)"
| "authReducer ClearError (st, s) = (st, s\<lparr>error := JNull\<rparr>)"
| "authReducer (Pending t) (st, s) = (st, s\<lparr>status := loading, error := JNull\<rparr>)"
| "authReducer (Fulfilled CheckAuth payload) (st, s) =
     (st, s\<lparr>status := succeeded, user := get_prop payload ''user'', isAuthenticated := True,
           rememberMe := get_prop payload ''rememberMe'', error := JNull\<rparr>)"
| "authReducer (Fulfilled LogoutUser payload) (st, s) = (st, s\<lparr>status := idle, error := JNull\<rparr>)"
| "authReducer (Fulfilled t payload) (st, s) =
     (st, s\<lparr>status := succeeded, user := get_prop payload ''user'', isAuthenticated := True,
           rememberMe := get_prop payload ''rememberMe''\<rparr>)"
| "authReducer (Rejected t payload) (st, s) =
     (let s1 = s\<lparr>status := failed, error := or_else payload (JStr ''An unknown error occurred.'')\<rparr>
      in (st, if t = Signup \<or> t = Login \<or> t = CheckAuth
              then s1\<lparr>isAuthenticated := False, user := JNull, rememberMe := JBool False\<rparr>
              else s1))"

definition settle :: "thunk_name \<Rightarrow> json + json \<Rightarrow> auth_action" where
  "settle t r = (case r of Inl v \<Rightarrow> Rejected t v | Inr p \<Rightarrow> Fulfilled t p)"

text \<open>
  \<open>logoutUser\<close> dispatches \<open>logoutClient\<close> from inside its payload creator, so it runs on
  the storage and the session.
\<close>

definition logoutUser ::
  "network \<Rightarrow> browser_storage \<times> auth_state \<Rightarrow> (browser_storage \<times> auth_state) \<times> (json + json)" where
  "logoutUser net \<sigma> =
     (case post_logout net of
        Inr r \<Rightarrow> (authReducer LogoutClient \<sigma>, Inr (JBool True))
      | Inl e \<Rightarrow> (authReducer LogoutClient \<sigma>, Inl (getLaravelErrorMessage e ''Logout failed.'')))"

text \<open>
  Dispatching a thunk: the \<open>pending\<close> action, the payload creator, then the
  \<open>fulfilled\<close> or \<open>rejected\<close> action with what it returned.
\<close>

definition dispatch_signup ::
  "network \<Rightarrow> json \<Rightarrow> json \<Rightarrow> json \<Rightarrow> json \<Rightarrow> browser_storage \<times> auth_state \<Rightarrow> browser_storage \<times> auth_state" where
  "dispatch_signup net name email password password_confirmation \<sigma> =
     (let (st0, s0) = authReducer (Pending Signup) \<sigma>;
          (st1, r) = signup net name email password password_confirmation st0
      in authReducer (settle Signup r) (st1, s0))"

definition dispatch_login ::
  "network \<Rightarrow> json \<Rightarrow> json \<Rightarrow> json \<Rightarrow> browser_storage \<times> auth_state \<Rightarrow> browser_storage \<times> auth_state" where
  "dispatch_login net email password rememberMe_arg \<sigma> =
     (let (st0, s0) = authReducer (Pending Login) \<sigma>;
          (st1, r) = login net email password rememberMe_arg st0
      in authReducer (settle Login r) (st1, s0))"

definition dispatch_checkAuth ::
  "network \<Rightarrow> browser_storage \<times> auth_state \<Rightarrow> browser_storage \<times> auth_state" where
  "dispatch_checkAuth net \<sigma> =
     (let (st0, s0) = authReducer (Pending CheckAuth) \<sigma>;
          (st1, r) = checkAuth net st0
      in authReducer (settle CheckAuth r) (st1, s0))"

definition dispatch_logoutUser ::
  "network \<Rightarrow> browser_storage \<times> auth_state \<Rightarrow> browser_storage \<times> auth_state" where
  "dispatch_logoutUser net \<sigma> =
     (let \<sigma>0 = authReducer (Pending LogoutUser) \<sigma>;
          (\<sigma>1, r) = logoutUser net \<sigma>0
      in authReducer (settle LogoutUser r) \<sigma>1)"



section \<open>The secteurs service and the listing hook (src/unnamed/part_001, part_000)\<close>

subsection \<open>The service\<close>

text \<open>
  Each call returns the requests it sent and its outcome; a failure is logged and
  thrown again, so the caller gets the client's error unchanged.
\<close>

definition SecteursService_getAll :: "network \<Rightarrow> request_config list \<times> (api_error + json)" where
  "SecteursService_getAll net =
     (case apiClient_get net ''/secteurs'' of
        (sent, Inl e) \<Rightarrow> (sent, Inl e)
      | (sent, Inr r) \<Rightarrow> (sent, Inr (or_else (data r) (JArr []))))"

definition SecteursService_delete :: "network \<Rightarrow> json \<Rightarrow> request_config list \<times> (api_error + bool)" where
  "SecteursService_delete net ident =
     (case apiClient_delete net (''/secteurs/'' @ js_toString ident) of
        (sent, Inl e) \<Rightarrow> (sent, Inl e)
      | (sent, Inr r) \<Rightarrow> (sent, Inr True))"

subsection \<open>The state of the hook\<close>

record column_filter =
  filter_key :: json
  filter_value :: json
  placeholder :: json
  options :: "json list"

record sort_config =
  sort_key :: string
  direction :: string

text \<open>
  The \<open>useState\<close> cells. \<open>secteurs\<close> is the authoritative list as loaded.
  \<open>filteredSecteurs\<close> is not kept: the effect sets it to the value of
  \<open>applyFiltersAndSorting\<close> after every change of the list, the search term, the
  filters or the sort configuration, so it is that function of the state.
\<close>

record secteurs_view =
  secteurs :: "json list"
  isModalOpen :: bool
  isDeleteModalOpen :: bool
  secteurToDelete :: json
  viewMode :: bool
  selectedSecteur :: json
  searchTerm :: string
  filters :: "column_filter list"
  sortConfig :: sort_config

definition initial_view :: secteurs_view where
  "initial_view =
     \<lparr>secteurs = [], isModalOpen = False, isDeleteModalOpen = False, secteurToDelete = JNull,
      viewMode = False, selectedSecteur = JNull, searchTerm = [],
      filters = [\<lparr>filter_key = JStr ''secteur'', filter_value = JStr [],
                  placeholder = JStr ''Tous les secteurs'', options = []\<rparr>],
      sortConfig = \<lparr>sort_key = ''intitule'', direction = ''asc''\<rparr>\<rparr>"

text \<open>An exception of the runtime: a property read on null or undefined, a call of a missing method.\<close>

datatype js_error = TypeError

subsection \<open>Filter options\<close>

fun is_primitive :: "json \<Rightarrow> bool" where
  "is_primitive (JArr xs) = False"
| "is_primitive (JObj kvs) = False"
| "is_primitive v = True"

text \<open>
  \<open>a === b\<close>, and the equality of a \<open>Set\<close>: primitives by value; an array or an object
  is identical to itself only, and the values compared here were parsed apart.
\<close>

definition strict_equal :: "json \<Rightarrow> json \<Rightarrow> bool" where
  "strict_equal a b = (is_primitive a \<and> a = b)"

text \<open>\<open>[...new Set(xs)]\<close>: the first occurrence of each value, in order.\<close>

function set_spread :: "json list \<Rightarrow> json list" where
  "set_spread [] = []"
| "set_spread (x # xs) = x # set_spread (filter (\<lambda>y. \<not> strict_equal x y) xs)"
  by pat_completeness auto
termination
  by (relation "measure length") (auto simp: less_Suc_eq_le)

text \<open>\<open>{...prev[0]}\<close>: the first filter, or an object without properties when there is none.\<close>

definition first_filter :: "column_filter list \<Rightarrow> column_filter" where
  "first_filter prev =
     (case prev of
        [] \<Rightarrow> \<lparr>filter_key = JUndefined, filter_value = JUndefined, placeholder = JUndefined,
                options = []\<rparr>
      | f # fs \<Rightarrow> f)"

text \<open>
  \<open>updateFilterOptions\<close> on a loaded array: the new filters, or the \<open>TypeError\<close> that
  \<open>f.secteur\<close> raises on a row that is null or undefined (inside the state updater,
  outside the \<open>try\<close> of \<open>loadSecteurs\<close>).
\<close>

definition updateFilterOptions :: "json list \<Rightarrow> column_filter list \<Rightarrow> js_error + column_filter list" where
  "updateFilterOptions rows prev =
     (if length rows > 0 then
        (if list_ex nullish rows then Inl TypeError
         else Inr [(first_filter prev)\<lparr>options := set_spread (map (\<lambda>f. get_prop f ''secteur'') rows)\<rparr>])
      else Inr prev)"

text \<open>
  \<open>loadSecteurs\<close>. A failed fetch is caught and logged: nothing changes. An answer that
  is not an array makes the hook fail with a \<open>TypeError\<close>: for a string in the state
  updater (\<open>data.map\<close> is missing), for any other value in the effect that follows
  (\<open>[...secteurs]\<close> does not iterate it).
\<close>

definition loadSecteurs ::
  "network \<Rightarrow> secteurs_view \<Rightarrow> request_config list \<times> (js_error + secteurs_view)" where
  "loadSecteurs net st =
     (case SecteursService_getAll net of
        (sent, Inl e) \<Rightarrow> (sent, Inr st)
      | (sent, Inr (JArr rows)) \<Rightarrow>
          (case updateFilterOptions rows (filters st) of
             Inl err \<Rightarrow> (sent, Inl err)
           | Inr fs \<Rightarrow> (sent, Inr (st\<lparr>secteurs := rows, filters := fs\<rparr>)))
      | (sent, Inr other) \<Rightarrow> (sent, Inl TypeError))"

subsection \<open>Search, filters and sort\<close>

text \<open>A \<open>filter\<close> whose callback may raise: the first exception ends it.\<close>

fun filter_raising :: "('a \<Rightarrow> js_error + bool) \<Rightarrow> 'a list \<Rightarrow> js_error + 'a list" where
  "filter_raising p [] = Inr []"
| "filter_raising p (x # xs) =
     (case p x of
        Inl err \<Rightarrow> Inl err
      | Inr b \<Rightarrow>
          (case filter_raising p xs of
             Inl err \<Rightarrow> Inl err
           | Inr ys \<Rightarrow> Inr (if b then x # ys else ys)))"

text \<open>\<open>secteur.intitule?.toLowerCase().includes(searchTerm.toLowerCase())\<close>\<close>

definition search_matches :: "string \<Rightarrow> json \<Rightarrow> js_error + bool" where
  "search_matches term row =
     (if nullish row then Inl TypeError
      else case get_prop row ''intitule'' of
             JStr s \<Rightarrow> Inr (includes_str (toLowerCase s) (toLowerCase term))
           | v \<Rightarrow> (if nullish v then Inr False else Inl TypeError))"

definition apply_search :: "string \<Rightarrow> json list \<Rightarrow> js_error + json list" where
  "apply_search term rows = (if term \<noteq> [] then filter_raising (search_matches term) rows else Inr rows)"

text \<open>\<open>secteur[filter.key] === filter.value\<close>\<close>

definition filter_matches :: "column_filter \<Rightarrow> json \<Rightarrow> js_error + bool" where
  "filter_matches f row =
     (if nullish row then Inl TypeError
      else Inr (strict_equal (get_prop row (js_toString (filter_key f))) (filter_value f)))"

definition apply_filter :: "column_filter \<Rightarrow> json list \<Rightarrow> js_error + json list" where
  "apply_filter f rows =
     (if truthy (filter_value f) then filter_raising (filter_matches f) rows else Inr rows)"

text \<open>\<open>filters.forEach\<close>\<close>

fun apply_filters :: "column_filter list \<Rightarrow> json list \<Rightarrow> js_error + json list" where
  "apply_filters [] rows = Inr rows"
| "apply_filters (f # fs) rows =
     (case apply_filter f rows of Inl err \<Rightarrow> Inl err | Inr rows' \<Rightarrow> apply_filters fs rows')"

text \<open>\<open>a[sortConfig.key]?.toLowerCase() || ''\<close>\<close>

definition sort_value :: "string \<Rightarrow> json \<Rightarrow> js_error + string" where
  "sort_value k row =
     (if nullish row then Inl TypeError
      else case get_prop row k of
             JStr s \<Rightarrow> Inr (toLowerCase s)
           | v \<Rightarrow> (if nullish v then Inr [] else Inl TypeError))"

fun sort_values :: "string \<Rightarrow> json list \<Rightarrow> js_error + (string \<times> json) list" where
  "sort_values k [] = Inr []"
| "sort_values k (row # rows) =
     (case sort_value k row of
        Inl err \<Rightarrow> Inl err
      | Inr v \<Rightarrow>
          (case sort_values k rows of
             Inl err \<Rightarrow> Inl err
           | Inr vs \<Rightarrow> Inr ((v, row) # vs)))"

text \<open>
  The comparator, on the two values. \<open>localeCompare\<close> is the browser's collation, a
  parameter here.
\<close>

definition compare_rows :: "(string \<Rightarrow> string \<Rightarrow> int) \<Rightarrow> string \<Rightarrow> string \<Rightarrow> string \<Rightarrow> int" where
  "compare_rows localeCompare dir valueA valueB =
     (if dir = ''asc'' then localeCompare valueA valueB
      else if dir = ''desc'' then localeCompare valueB valueA
      else 0)"

text \<open>
  \<open>Array.prototype.sort\<close> is stable: an element moves before another one only when
  the comparator is positive on the pair in list order.
\<close>

fun insert_sorted :: "('a \<Rightarrow> 'a \<Rightarrow> int) \<Rightarrow> 'a \<Rightarrow> 'a list \<Rightarrow> 'a list" where
  "insert_sorted cmp x [] = [x]"
| "insert_sorted cmp x (y # ys) = (if cmp x y \<le> 0 then x # y # ys else y # insert_sorted cmp x ys)"

definition stable_sort :: "('a \<Rightarrow> 'a \<Rightarrow> int) \<Rightarrow> 'a list \<Rightarrow> 'a list" where
  "stable_sort cmp xs = foldr (insert_sorted cmp) xs []"

text \<open>
  The sort step. With fewer than two rows the comparator is never called; with two or
  more it is called on every row, so the step raises when the value of some row does.
\<close>

definition apply_sort ::
  "(string \<Rightarrow> string \<Rightarrow> int) \<Rightarrow> sort_config \<Rightarrow> json list \<Rightarrow> js_error + json list" where
  "apply_sort localeCompare cfg rows =
     (if length rows < 2 then Inr rows
      else case sort_values (sort_key cfg) rows of
             Inl err \<Rightarrow> Inl err
           | Inr vs \<Rightarrow>
               Inr (map snd (stable_sort
                      (\<lambda>a b. compare_rows localeCompare (direction cfg) (fst a) (fst b)) vs)))"

definition applyFiltersAndSorting ::
  "(string \<Rightarrow> string \<Rightarrow> int) \<Rightarrow> secteurs_view \<Rightarrow> js_error + json list" where
  "applyFiltersAndSorting localeCompare st =
     (case apply_search (searchTerm st) (secteurs st) of
        Inl err \<Rightarrow> Inl err
      | Inr found \<Rightarrow>
          (case apply_filters (filters st) found of
             Inl err \<Rightarrow> Inl err
           | Inr kept \<Rightarrow> apply_sort localeCompare (sortConfig st) kept))"

subsection \<open>Handlers\<close>

definition handleSort :: "string \<Rightarrow> secteurs_view \<Rightarrow> secteurs_view" where
  "handleSort column st =
     st\<lparr>sortConfig :=
          \<lparr>sort_key = column,
           direction = (if sort_key (sortConfig st) = column \<and> direction (sortConfig st) = ''asc''
                        then ''desc'' else ''asc'')\<rparr>\<rparr>"

definition handleSearch :: "string \<Rightarrow> secteurs_view \<Rightarrow> secteurs_view" where
  "handleSearch term st = st\<lparr>searchTerm := term\<rparr>"

definition handleFilterChange :: "json \<Rightarrow> json \<Rightarrow> secteurs_view \<Rightarrow> secteurs_view" where
  "handleFilterChange k v st =
     st\<lparr>filters := map (\<lambda>f. if strict_equal (filter_key f) k then f\<lparr>filter_value := v\<rparr> else f)
                        (filters st)\<rparr>"

definition handleModalClose :: "secteurs_view \<Rightarrow> secteurs_view" where
  "handleModalClose st = st\<lparr>isModalOpen := False, selectedSecteur := JNull, viewMode := False\<rparr>"

definition handleDeleteClick :: "json \<Rightarrow> secteurs_view \<Rightarrow> secteurs_view" where
  "handleDeleteClick secteur st = st\<lparr>secteurToDelete := secteur, isDeleteModalOpen := True\<rparr>"

definition handleDeleteCancel :: "secteurs_view \<Rightarrow> secteurs_view" where
  "handleDeleteCancel st = st\<lparr>isDeleteModalOpen := False, secteurToDelete := JNull\<rparr>"

text \<open>\<open>error.response?.data?.message || error.message\<close>\<close>

definition error_text :: "api_error \<Rightarrow> json" where
  "error_text e =
     or_else (case response e of
                None \<Rightarrow> JUndefined
              | Some r \<Rightarrow> (if nullish (data r) then JUndefined else get_prop (data r) ''message''))
             (JStr (message e))"

text \<open>
  \<open>handleDeleteConfirm\<close>: the requests sent, the texts shown with \<open>alert\<close>, and the
  state (or the failure of the reload).
\<close>

definition handleDeleteConfirm ::
  "network \<Rightarrow> secteurs_view \<Rightarrow> request_config list \<times> string list \<times> (js_error + secteurs_view)" where
  "handleDeleteConfirm net st =
     (if \<not> truthy (secteurToDelete st) then ([], [], Inr st)
      else case SecteursService_delete net (get_prop (secteurToDelete st) ''id'') of
             (sent, Inr deleted) \<Rightarrow>
               (let st1 = st\<lparr>isDeleteModalOpen := False, secteurToDelete := JNull\<rparr>;
                    st2 = handleModalClose st1;
                    (reloaded, outcome) = loadSecteurs net st2
                in (sent @ reloaded, [], outcome))
           | (sent, Inl e) \<Rightarrow>
               (sent,
                [''Erreur lors de la suppression du secteur: '' @ js_toString (error_text e)],
                Inr st))"

section \<open>Vocabulary of the properties\<close>

text \<open>The session a rejected signup, login or session check leaves, with its message.\<close>

definition rejected_session :: "json \<Rightarrow> auth_state" where
  "rejected_session msg =
     \<lparr>user = JNull, isAuthenticated = False, rememberMe = JBool False, status = failed, error = msg\<rparr>"

text \<open>
  The backend's validation failures as it sends them: under the key \<open>errors\<close>, an object
  from each refused field to the list of its messages.
\<close>

definition field_errors :: "(string \<times> string list) list \<Rightarrow> json" where
  "field_errors fes = JObj (map (\<lambda>(field, msgs). (field, JArr (map JStr msgs))) fes)"

text \<open>
  The user payload of the backend: no payload (null or undefined), or an object whose
  \<open>roles\<close> and \<open>permissions\<close> are each an array or absent (the source's own assumption:
  "Assuming roles are returned as an array").
\<close>

definition array_or_absent :: "json \<Rightarrow> bool" where
  "array_or_absent v = (nullish v \<or> is_array v)"

fun user_payload :: "json \<Rightarrow> bool" where
  "user_payload JUndefined = True"
| "user_payload JNull = True"
| "user_payload (JObj kvs) =
     (array_or_absent (get_prop (JObj kvs) ''roles'')
      \<and> array_or_absent (get_prop (JObj kvs) ''permissions''))"
| "user_payload v = False"

definition answers_user_payload :: "network \<Rightarrow> string \<Rightarrow> bool" where
  "answers_user_payload net u =
     (case get_profile net u of Inl e \<Rightarrow> True | Inr r \<Rightarrow> user_payload (data r))"

definition has_array_roles :: "json \<Rightarrow> bool" where
  "has_array_roles u = (is_array (get_prop u ''roles'') \<and> is_array (get_prop u ''permissions''))"

text \<open>
  Rows of a listing: none is null or undefined, and the display field \<open>intitule\<close> of
  each is a text, null or absent (what the optional call \<open>intitule?.toLowerCase()\<close>
  expects).
\<close>

definition text_rows :: "json list \<Rightarrow> bool" where
  "text_rows rows =
     list_all (\<lambda>row. \<not> nullish row
                  \<and> (case get_prop row ''intitule'' of JStr s \<Rightarrow> True | v \<Rightarrow> nullish v)) rows"

text \<open>The projection with the two steps in the other order: column filters, then search.\<close>

definition filters_then_search ::
  "(string \<Rightarrow> string \<Rightarrow> int) \<Rightarrow> secteurs_view \<Rightarrow> js_error + json list" where
  "filters_then_search localeCompare st =
     (case apply_filters (filters st) (secteurs st) of
        Inl err \<Rightarrow> Inl err
      | Inr kept \<Rightarrow>
          (case apply_search (searchTerm st) kept of
             Inl err \<Rightarrow> Inl err
           | Inr found \<Rightarrow> apply_sort localeCompare (sortConfig st) found))"

text \<open>The two steps as predicates on a row of a listing.\<close>

definition matches_search :: "string \<Rightarrow> json \<Rightarrow> bool" where
  "matches_search term row =
     (term = [] \<or> (case get_prop row ''intitule'' of
                      JStr s \<Rightarrow> includes_str (toLowerCase s) (toLowerCase term)
                    | v \<Rightarrow> False))"

definition passes_filter :: "column_filter \<Rightarrow> json \<Rightarrow> bool" where
  "passes_filter f row =
     (if truthy (filter_value f)
      then strict_equal (get_prop row (js_toString (filter_key f))) (filter_value f)
      else True)"

section \<open>Example backends, storages and listings\<close>

definition backend_down :: network where
  "backend_down config = Inl \<lparr>response = None, message = ''Network Error''\<rparr>"

definition laravel_user :: json where
  "laravel_user = JObj [(''id'', JNum 1), (''name'', JStr ''A''), (''email'', JStr ''a@b.com''),
     (''roles'', JArr []), (''permissions'', JArr [JStr ''view_secteurs''])]"

text \<open>A backend with a session: every request succeeds, the profile routes give the user.\<close>

definition backend_up :: network where
  "backend_up config =
     Inr \<lparr>status_code = 200,
          data = (if url config = ''/user'' \<or> url config = ''/api/user'' then laravel_user
                  else JStr [])\<rparr>"

text \<open>A backend without a session: it hands out the CSRF cookie and answers 401 to the rest.\<close>

definition unauthenticated_response :: http_response where
  "unauthenticated_response =
     \<lparr>status_code = 401, data = JObj [(''message'', JStr ''Unauthenticated.'')]\<rparr>"

definition unauthenticated_error :: api_error where
  "unauthenticated_error =
     \<lparr>response = Some unauthenticated_response, message = ''Request failed with status code 401''\<rparr>"

definition backend_unauthenticated :: network where
  "backend_unauthenticated config =
     (if url config = csrf_cookie_path then Inr \<lparr>status_code = 204, data = JStr []\<rparr>
      else Inl unauthenticated_error)"

text \<open>A backend that refuses the submitted form with field-level messages.\<close>

definition invalid_response :: http_response where
  "invalid_response =
     \<lparr>status_code = 422,
      data = JObj [(''message'', JStr ''The given data was invalid.''),
                   (''errors'', field_errors [(''email'', [''The email field is required.'']),
                                              (''password'', [''The password field is required.''])])]\<rparr>"

definition invalid_error :: api_error where
  "invalid_error =
     \<lparr>response = Some invalid_response, message = ''Request failed with status code 422''\<rparr>"

definition backend_invalid :: network where
  "backend_invalid config =
     (if url config = csrf_cookie_path then Inr \<lparr>status_code = 204, data = JStr []\<rparr>
      else Inl invalid_error)"

text \<open>A backend that accepts the submitted form and then refuses the profile request.\<close>

definition backend_profile_refused :: network where
  "backend_profile_refused config =
     (if url config = ''/user'' \<or> url config = ''/api/user'' then Inl unauthenticated_error
      else Inr \<lparr>status_code = 204, data = JStr []\<rparr>)"

text \<open>A backend that answers every request with an empty body.\<close>

definition backend_blank :: network where
  "backend_blank config = Inr \<lparr>status_code = 200, data = JStr []\<rparr>"

definition empty_storage :: browser_storage where
  "empty_storage = \<lparr>localStorage = Map.empty, sessionStorage = Map.empty\<rparr>"

definition post_login :: request_config where
  "post_login = \<lparr>http_method = ''POST'', url = ''/login'',
     req_data = JObj [(''email'', JStr ''a@b.com''), (''password'', JStr ''x''), (''remember'', JBool True)]\<rparr>"


text \<open>A collation for the examples: by byte value.\<close>

definition byte_compare :: "string \<Rightarrow> string \<Rightarrow> int" where
  "byte_compare a b = (if a < b then - 1 else if a = b then 0 else 1)"

definition secteur_row :: "int \<Rightarrow> string \<Rightarrow> string \<Rightarrow> json" where
  "secteur_row ident intitule secteur =
     JObj [(''id'', JNum ident), (''intitule'', JStr intitule), (''secteur'', JStr secteur)]"

definition example_rows :: "json list" where
  "example_rows =
     [secteur_row 1 ''Industrie'' ''Prive'',
      secteur_row 2 ''Agriculture'' ''Public'',
      secteur_row 3 ''Informatique'' ''Prive'',
      JObj [(''id'', JNum 4), (''intitule'', JNull), (''secteur'', JStr ''Prive'')]]"

text \<open>A backend that serves a list of secteurs and refuses every deletion.\<close>

definition deletion_refused :: api_error where
  "deletion_refused =
     \<lparr>response = Some \<lparr>status_code = 409,
                        data = JObj [(''message'', JStr ''Ce secteur est encore utilise.'')]\<rparr>,
      message = ''Request failed with status code 409''\<rparr>"

definition backend_secteurs :: "json list \<Rightarrow> network" where
  "backend_secteurs rows config =
     (if toLowerCase (http_method config) = ''delete'' then Inl deletion_refused
      else Inr \<lparr>status_code = 200,
                data = (if url config = ''/secteurs'' then JArr rows else JStr [])\<rparr>)"

definition example_view :: secteurs_view where
  "example_view =
     initial_view\<lparr>secteurs := example_rows, searchTerm := ''IN'',
       filters := [\<lparr>filter_key = JStr ''secteur'', filter_value = JStr ''Prive'',
                    placeholder = JStr ''Tous les secteurs'',
                    options = [JStr ''Prive'', JStr ''Public'']\<rparr>],
       secteurToDelete := secteur_row 2 ''Agriculture'' ''Public'', isDeleteModalOpen := True\<rparr>"

section \<open>Properties of the HTTP client\<close>

lemma get_needs_no_csrf:
  "\<not> requires_csrf \<lparr>http_method = ''get'', url = u, req_data = d\<rparr>"
  by (simp add: requires_csrf_def methodsRequiringCSRF_def toLowerCase_def toLowerCase_char_def)

lemma apiClient_request_unprimed:
  "\<not> requires_csrf config \<or> is_csrf_cookie_request config \<Longrightarrow>
   apiClient_request net config = ([config], net config)"
  by (subst apiClient_request.simps) auto

lemma csrf_cookie_request_passes:
  "apiClient_request net csrf_cookie_request = ([csrf_cookie_request], net csrf_cookie_request)"
  by (rule apiClient_request_unprimed) (simp add: csrf_cookie_request_def get_needs_no_csrf)

lemma apiClient_request_primed:
  "requires_csrf config \<Longrightarrow> \<not> is_csrf_cookie_request config \<Longrightarrow>
   apiClient_request net config =
     (case net csrf_cookie_request of
        Inl e \<Rightarrow> ([csrf_cookie_request], Inl csrf_failure)
      | Inr r \<Rightarrow> ([csrf_cookie_request, config], net config))"
  by (subst apiClient_request.simps) (simp add: csrf_cookie_request_passes split: sum.splits)

lemma requires_csrf_not_priming:
  "requires_csrf config \<Longrightarrow> config \<noteq> csrf_cookie_request"
  using get_needs_no_csrf [of csrf_cookie_path JUndefined]
  by (auto simp: csrf_cookie_request_def)

text \<open>
  Claim C4. A request with a state-changing method (post, put, patch or delete, in any
  letter case) that the client does not take for the priming request itself (its URL
  does not contain the priming path) is preceded by the priming request: the priming
  request is the first one sent. If priming fails, nothing else is sent, so the
  original request never is, and the call is rejected with the client's own error:
  its message is "Failed to obtain CSRF token." and it has no response, whatever error
  the priming request itself failed with. If priming succeeds, the original request is
  sent right after it and its outcome is the call's.
\<close>

theorem csrf_priming_precedes_state_changing_request:
  assumes "requires_csrf config" and "\<not> is_csrf_cookie_request config"
  shows "(case net csrf_cookie_request of
            Inl e \<Rightarrow>
              apiClient_request net config
                = ([csrf_cookie_request],
                   Inl \<lparr>response = None, message = ''Failed to obtain CSRF token.''\<rparr>)
              \<and> config \<notin> set (fst (apiClient_request net config))
          | Inr r \<Rightarrow>
              apiClient_request net config = ([csrf_cookie_request, config], net config))
         \<and> hd (fst (apiClient_request net config)) = csrf_cookie_request
         \<and> csrf_cookie_request
             = \<lparr>http_method = ''get'', url = ''/sanctum/csrf-cookie'', req_data = JUndefined\<rparr>"
proof -
  have ne: "config \<noteq> csrf_cookie_request"
    using assms(1) by (rule requires_csrf_not_priming)
  have p: "csrf_cookie_request
             = \<lparr>http_method = ''get'', url = ''/sanctum/csrf-cookie'', req_data = JUndefined\<rparr>"
    by (simp add: csrf_cookie_request_def csrf_cookie_path_def)
  show ?thesis
  proof (cases "net csrf_cookie_request")
    case (Inl e)
    with ne p show ?thesis
      by (simp add: apiClient_request_primed [OF assms] csrf_failure_def)
  next
    case (Inr r)
    with p show ?thesis
      by (simp add: apiClient_request_primed [OF assms])
  qed
qed

theorem csrf_priming_witness:
  "requires_csrf post_login \<and> \<not> is_csrf_cookie_request post_login
   \<and> backend_down csrf_cookie_request = Inl \<lparr>response = None, message = ''Network Error''\<rparr>
   \<and> apiClient_request backend_down post_login
       = ([\<lparr>http_method = ''get'', url = ''/sanctum/csrf-cookie'', req_data = JUndefined\<rparr>],
          Inl \<lparr>response = None, message = ''Failed to obtain CSRF token.''\<rparr>)
   \<and> post_login \<notin> set (fst (apiClient_request backend_down post_login))
   \<and> apiClient_request backend_up post_login
       = ([\<lparr>http_method = ''get'', url = ''/sanctum/csrf-cookie'', req_data = JUndefined\<rparr>,
           post_login],
          Inr \<lparr>status_code = 200, data = JStr []\<rparr>)"
proof -
  have a: "requires_csrf post_login"
    by (simp add: requires_csrf_def post_login_def methodsRequiringCSRF_def
        toLowerCase_def toLowerCase_char_def)
  have b: "\<not> is_csrf_cookie_request post_login"
    by (simp add: is_csrf_cookie_request_def post_login_def csrf_cookie_path_def)
  have n: "backend_down csrf_cookie_request = Inl \<lparr>response = None, message = ''Network Error''\<rparr>"
    by (simp add: backend_down_def)
  have u: "backend_up post_login = Inr \<lparr>status_code = 200, data = JStr []\<rparr>"
    by (simp add: backend_up_def post_login_def)
  have u': "backend_up csrf_cookie_request
      = Inr \<lparr>status_code = 200, data = JStr []\<rparr>"
    by (simp add: backend_up_def csrf_cookie_request_def csrf_cookie_path_def)
  note down = csrf_priming_precedes_state_changing_request [OF a b, of backend_down]
  note up = csrf_priming_precedes_state_changing_request [OF a b, of backend_up]
  have d: "apiClient_request backend_down post_login
       = ([\<lparr>http_method = ''get'', url = ''/sanctum/csrf-cookie'', req_data = JUndefined\<rparr>],
          Inl \<lparr>response = None, message = ''Failed to obtain CSRF token.''\<rparr>)
      \<and> post_login \<notin> set (fst (apiClient_request backend_down post_login))"
    using down unfolding n by auto
  have "apiClient_request backend_up post_login
       = ([\<lparr>http_method = ''get'', url = ''/sanctum/csrf-cookie'', req_data = JUndefined\<rparr>,
           post_login],
          backend_up post_login)"
    using up unfolding u' by auto
  with a b n d u show ?thesis by auto
qed


section \<open>Properties of the session store\<close>

subsection \<open>Requests of the thunks\<close>

lemma apiClient_get_sends:
  "apiClient_get net u =
     ([\<lparr>http_method = ''get'', url = u, req_data = JUndefined\<rparr>],
      net \<lparr>http_method = ''get'', url = u, req_data = JUndefined\<rparr>)"
  unfolding apiClient_get_def
  by (rule apiClient_request_unprimed) (simp add: get_needs_no_csrf)

lemma post_requires_csrf: "requires_csrf \<lparr>http_method = ''post'', url = u, req_data = d\<rparr>"
  by (simp add: requires_csrf_def methodsRequiringCSRF_def toLowerCase_def toLowerCase_char_def)

lemma apiClient_post_sends:
  "\<not> includes_str u csrf_cookie_path \<Longrightarrow>
   apiClient_post net u d =
     (case net csrf_cookie_request of
        Inl e \<Rightarrow> ([csrf_cookie_request], Inl csrf_failure)
      | Inr r \<Rightarrow> ([csrf_cookie_request, \<lparr>http_method = ''post'', url = u, req_data = d\<rparr>],
                  net \<lparr>http_method = ''post'', url = u, req_data = d\<rparr>))"
  unfolding apiClient_post_def
  by (rule apiClient_request_primed) (simp_all add: post_requires_csrf is_csrf_cookie_request_def)

lemmas request_defs = post_register_def post_credentials_def get_profile_def post_logout_def
  apiClient_get_sends apiClient_post_sends csrf_cookie_path_def csrf_cookie_request_def
  csrf_failure_def

lemmas storage_defs = setStorageItem_def removeStorageItem_def getStorageItem_def getStorage_def
  STORAGE_KEYS_USER_def STORAGE_KEYS_REMEMBER_ME_def

lemmas thunk_defs = signup_def login_def checkAuth_def checkAuth_failed_def logoutUser_def
  dispatch_signup_def dispatch_login_def dispatch_checkAuth_def dispatch_logoutUser_def
  settle_def fulfilled_payload_def prepareUserData_def or_else_def getLaravelErrorMessage_def
  initialState_def Let_def

subsection \<open>Logout\<close>

lemma authReducer_LogoutClient_storage:
  "localStorage (fst (authReducer LogoutClient (st, s))) = (localStorage st)(STORAGE_KEYS_USER := None)"
  "sessionStorage (fst (authReducer LogoutClient (st, s))) =
     (sessionStorage st)(STORAGE_KEYS_USER := None, STORAGE_KEYS_REMEMBER_ME := None)"
  by (simp_all add: storage_defs)

lemma logoutUser_runs_logoutClient:
  "fst (logoutUser net \<sigma>) = authReducer LogoutClient \<sigma>"
  by (simp add: logoutUser_def split: sum.splits)

lemma settle_LogoutUser_keeps:
  "fst (authReducer (settle LogoutUser r) (st, s)) = st"
  "user (snd (authReducer (settle LogoutUser r) (st, s))) = user s"
  "isAuthenticated (snd (authReducer (settle LogoutUser r) (st, s))) = isAuthenticated s"
  "rememberMe (snd (authReducer (settle LogoutUser r) (st, s))) = rememberMe s"
  by (cases r; simp add: settle_def Let_def)+

text \<open>
  What logout does for every outcome of the backend call: the session is anonymous, no
  scope holds the user record, the tab scope holds no remember-me record, and the
  durable scope's remember-me entry is as it was.
\<close>

lemma logout_resets_client_state:
  fixes net st s
  defines "\<sigma>' \<equiv> dispatch_logoutUser net (st, s)"
  shows "\<not> isAuthenticated (snd \<sigma>')" and "user (snd \<sigma>') = JNull"
    and "localStorage (fst \<sigma>') STORAGE_KEYS_USER = None"
    and "sessionStorage (fst \<sigma>') STORAGE_KEYS_USER = None"
    and "sessionStorage (fst \<sigma>') STORAGE_KEYS_REMEMBER_ME = None"
    and "localStorage (fst \<sigma>') STORAGE_KEYS_REMEMBER_ME = localStorage st STORAGE_KEYS_REMEMBER_ME"
proof -
  let ?\<sigma>0 = "(st, s\<lparr>status := loading, error := JNull\<rparr>)"
  obtain st1 s1 where l: "authReducer LogoutClient ?\<sigma>0 = (st1, s1)"
    by (cases "authReducer LogoutClient ?\<sigma>0")
  obtain r where r: "logoutUser net ?\<sigma>0 = ((st1, s1), r)"
    using logoutUser_runs_logoutClient [of net ?\<sigma>0] l
    by (cases "logoutUser net ?\<sigma>0") auto
  have \<sigma>': "\<sigma>' = authReducer (settle LogoutUser r) (st1, s1)"
    by (simp add: \<sigma>'_def dispatch_logoutUser_def r)
  have st1: "st1 = fst (authReducer LogoutClient ?\<sigma>0)"
    and s1: "s1 = snd (authReducer LogoutClient ?\<sigma>0)"
    using l by simp_all
  show "\<not> isAuthenticated (snd \<sigma>')" and "user (snd \<sigma>') = JNull"
    by (simp_all add: \<sigma>' s1 settle_LogoutUser_keeps)
  show "localStorage (fst \<sigma>') STORAGE_KEYS_USER = None"
    and "sessionStorage (fst \<sigma>') STORAGE_KEYS_USER = None"
    and "sessionStorage (fst \<sigma>') STORAGE_KEYS_REMEMBER_ME = None"
    and "localStorage (fst \<sigma>') STORAGE_KEYS_REMEMBER_ME = localStorage st STORAGE_KEYS_REMEMBER_ME"
    unfolding \<sigma>' settle_LogoutUser_keeps st1 authReducer_LogoutClient_storage
    by (simp_all add: STORAGE_KEYS_USER_def STORAGE_KEYS_REMEMBER_ME_def)
qed

text \<open>
  No operation of the store writes or removes the remember-me record of the durable
  scope: the writes and removals of that record leave the scope argument out and so
  reach the tab scope. The durable scope therefore holds such a record only if
  something other than this store put it there.
\<close>

lemma thunks_keep_durable_remember_me:
  "localStorage (fst (signup net name email password pc st)) STORAGE_KEYS_REMEMBER_ME
     = localStorage st STORAGE_KEYS_REMEMBER_ME"
  "localStorage (fst (login net email password rm st)) STORAGE_KEYS_REMEMBER_ME
     = localStorage st STORAGE_KEYS_REMEMBER_ME"
  "localStorage (fst (checkAuth net st)) STORAGE_KEYS_REMEMBER_ME
     = localStorage st STORAGE_KEYS_REMEMBER_ME"
  by (auto simp: signup_def login_def checkAuth_def checkAuth_failed_def storage_defs Let_def
      split: sum.splits)

lemma authReducer_keeps_durable_remember_me:
  "localStorage (fst (authReducer a \<sigma>)) STORAGE_KEYS_REMEMBER_ME
     = localStorage (fst \<sigma>) STORAGE_KEYS_REMEMBER_ME"
proof (cases \<sigma>)
  case (Pair st s)
  show ?thesis
  proof (cases a)
    case (Fulfilled t p)
    then show ?thesis by (cases t) (simp_all add: Pair)
  qed (simp_all add: Pair storage_defs Let_def)
qed

lemma dispatch_keeps_durable_remember_me:
  "localStorage (fst (dispatch_signup net name email password pc \<sigma>)) STORAGE_KEYS_REMEMBER_ME
     = localStorage (fst \<sigma>) STORAGE_KEYS_REMEMBER_ME"
  "localStorage (fst (dispatch_login net email password rm \<sigma>)) STORAGE_KEYS_REMEMBER_ME
     = localStorage (fst \<sigma>) STORAGE_KEYS_REMEMBER_ME"
  "localStorage (fst (dispatch_checkAuth net \<sigma>)) STORAGE_KEYS_REMEMBER_ME
     = localStorage (fst \<sigma>) STORAGE_KEYS_REMEMBER_ME"
  "localStorage (fst (dispatch_logoutUser net \<sigma>)) STORAGE_KEYS_REMEMBER_ME
     = localStorage (fst \<sigma>) STORAGE_KEYS_REMEMBER_ME"
proof -
  obtain st s where \<sigma>: "\<sigma> = (st, s)" by (cases \<sigma>)
  show "localStorage (fst (dispatch_signup net name email password pc \<sigma>)) STORAGE_KEYS_REMEMBER_ME
     = localStorage (fst \<sigma>) STORAGE_KEYS_REMEMBER_ME"
    using thunks_keep_durable_remember_me(1) [of net name email password pc st]
    by (cases "signup net name email password pc st")
       (simp add: \<sigma> dispatch_signup_def authReducer_keeps_durable_remember_me)
  show "localStorage (fst (dispatch_login net email password rm \<sigma>)) STORAGE_KEYS_REMEMBER_ME
     = localStorage (fst \<sigma>) STORAGE_KEYS_REMEMBER_ME"
    using thunks_keep_durable_remember_me(2) [of net email password rm st]
    by (cases "login net email password rm st")
       (simp add: \<sigma> dispatch_login_def authReducer_keeps_durable_remember_me)
  show "localStorage (fst (dispatch_checkAuth net \<sigma>)) STORAGE_KEYS_REMEMBER_ME
     = localStorage (fst \<sigma>) STORAGE_KEYS_REMEMBER_ME"
    using thunks_keep_durable_remember_me(3) [of net st]
    by (cases "checkAuth net st")
       (simp add: \<sigma> dispatch_checkAuth_def authReducer_keeps_durable_remember_me)
  show "localStorage (fst (dispatch_logoutUser net \<sigma>)) STORAGE_KEYS_REMEMBER_ME
     = localStorage (fst \<sigma>) STORAGE_KEYS_REMEMBER_ME"
    using logout_resets_client_state(6) [of net st s] by (simp add: \<sigma>)
qed

text \<open>
  Claim C1. In a browser whose durable scope holds no remember-me record (the store
  never writes one there), for every outcome of the backend logout call, success or
  failure, the session after logout has \<open>isAuthenticated\<close> false and \<open>user\<close> null, and
  neither the durable nor the tab scope holds the user record or the remember-me
  record.
\<close>

theorem logout_clears_session_and_storage:
  assumes "localStorage st STORAGE_KEYS_REMEMBER_ME = None"
  shows "isAuthenticated (snd (dispatch_logoutUser net (st, s))) = False
    \<and> user (snd (dispatch_logoutUser net (st, s))) = JNull
    \<and> localStorage (fst (dispatch_logoutUser net (st, s))) STORAGE_KEYS_USER = None
    \<and> sessionStorage (fst (dispatch_logoutUser net (st, s))) STORAGE_KEYS_USER = None
    \<and> localStorage (fst (dispatch_logoutUser net (st, s))) STORAGE_KEYS_REMEMBER_ME = None
    \<and> sessionStorage (fst (dispatch_logoutUser net (st, s))) STORAGE_KEYS_REMEMBER_ME = None
    \<and> (status (snd (dispatch_logoutUser net (st, s)))
         = (case post_logout net of Inl e \<Rightarrow> failed | Inr r \<Rightarrow> idle))"
proof -
  have "status (snd (dispatch_logoutUser net (st, s)))
         = (case post_logout net of Inl e \<Rightarrow> failed | Inr r \<Rightarrow> idle)"
    by (simp add: dispatch_logoutUser_def logoutUser_def settle_def Let_def split: sum.splits)
  then show ?thesis
    using logout_resets_client_state [of net st s] assms by simp
qed

theorem logout_witness:
  "localStorage (fst (dispatch_login backend_up (JStr ''a@b.com'') (JStr ''x'') (JBool True)
       (empty_storage, initialState empty_storage))) STORAGE_KEYS_REMEMBER_ME = None
   \<and> localStorage (fst (dispatch_login backend_up (JStr ''a@b.com'') (JStr ''x'') (JBool True)
       (empty_storage, initialState empty_storage))) STORAGE_KEYS_USER
       = Some (prepareUserData laravel_user)
   \<and> sessionStorage (fst (dispatch_login backend_up (JStr ''a@b.com'') (JStr ''x'') (JBool True)
       (empty_storage, initialState empty_storage))) STORAGE_KEYS_REMEMBER_ME = Some (JBool True)
   \<and> isAuthenticated (snd (dispatch_login backend_up (JStr ''a@b.com'') (JStr ''x'') (JBool True)
       (empty_storage, initialState empty_storage)))
   \<and> post_logout backend_down = Inl csrf_failure
   \<and> isAuthenticated (snd (dispatch_logoutUser backend_down
         (dispatch_login backend_up (JStr ''a@b.com'') (JStr ''x'') (JBool True)
            (empty_storage, initialState empty_storage)))) = False
   \<and> user (snd (dispatch_logoutUser backend_down
         (dispatch_login backend_up (JStr ''a@b.com'') (JStr ''x'') (JBool True)
            (empty_storage, initialState empty_storage)))) = JNull
   \<and> localStorage (fst (dispatch_logoutUser backend_down
         (dispatch_login backend_up (JStr ''a@b.com'') (JStr ''x'') (JBool True)
            (empty_storage, initialState empty_storage)))) STORAGE_KEYS_USER = None
   \<and> sessionStorage (fst (dispatch_logoutUser backend_down
         (dispatch_login backend_up (JStr ''a@b.com'') (JStr ''x'') (JBool True)
            (empty_storage, initialState empty_storage)))) STORAGE_KEYS_USER = None
   \<and> localStorage (fst (dispatch_logoutUser backend_down
         (dispatch_login backend_up (JStr ''a@b.com'') (JStr ''x'') (JBool True)
            (empty_storage, initialState empty_storage)))) STORAGE_KEYS_REMEMBER_ME = None
   \<and> sessionStorage (fst (dispatch_logoutUser backend_down
         (dispatch_login backend_up (JStr ''a@b.com'') (JStr ''x'') (JBool True)
            (empty_storage, initialState empty_storage)))) STORAGE_KEYS_REMEMBER_ME = None
   \<and> status (snd (dispatch_logoutUser backend_down
         (dispatch_login backend_up (JStr ''a@b.com'') (JStr ''x'') (JBool True)
            (empty_storage, initialState empty_storage)))) = failed
   \<and> status (snd (dispatch_logoutUser backend_up
         (dispatch_login backend_up (JStr ''a@b.com'') (JStr ''x'') (JBool True)
            (empty_storage, initialState empty_storage)))) = idle
   \<and> isAuthenticated (snd (dispatch_logoutUser backend_up
         (dispatch_login backend_up (JStr ''a@b.com'') (JStr ''x'') (JBool True)
            (empty_storage, initialState empty_storage)))) = False"
proof -
  let ?\<sigma> = "dispatch_login backend_up (JStr ''a@b.com'') (JStr ''x'') (JBool True)
       (empty_storage, initialState empty_storage)"
  have a: "localStorage (fst ?\<sigma>) STORAGE_KEYS_REMEMBER_ME = None"
    by (simp add: thunk_defs request_defs storage_defs backend_up_def empty_storage_def
        laravel_user_def)
  have b: "localStorage (fst ?\<sigma>) STORAGE_KEYS_USER = Some (prepareUserData laravel_user)
      \<and> sessionStorage (fst ?\<sigma>) STORAGE_KEYS_REMEMBER_ME = Some (JBool True)
      \<and> isAuthenticated (snd ?\<sigma>)"
    by (simp add: thunk_defs request_defs storage_defs backend_up_def empty_storage_def
        laravel_user_def)
  have d: "post_logout backend_down = Inl csrf_failure"
    by (simp add: request_defs backend_down_def)
  have u: "post_logout backend_up = Inr \<lparr>status_code = 200, data = JStr []\<rparr>"
    by (simp add: request_defs backend_up_def)
  note down = logout_clears_session_and_storage [OF a, where net = backend_down and s = "snd ?\<sigma>"]
  note up = logout_clears_session_and_storage [OF a, where net = backend_up and s = "snd ?\<sigma>"]
  show ?thesis
    using a b d down up unfolding prod.collapse by (simp add: d u)
qed

subsection \<open>Where the user record is kept\<close>

text \<open>A successful login keeps the user record in the chosen scope only.\<close>

lemma login_keeps_one_user_record:
  assumes "login net email password rm st = (st', Inr p)"
  shows "truthy (get_prop p ''rememberMe'') \<Longrightarrow>
           localStorage st' STORAGE_KEYS_USER = Some (get_prop p ''user'')
           \<and> sessionStorage st' STORAGE_KEYS_USER = None"
    and "\<not> truthy (get_prop p ''rememberMe'') \<Longrightarrow>
           sessionStorage st' STORAGE_KEYS_USER = Some (get_prop p ''user'')
           \<and> localStorage st' STORAGE_KEYS_USER = None"
  using assms
  by (auto simp: login_def fulfilled_payload_def storage_defs Let_def
      split: sum.splits if_splits)

text \<open>
  Claim C2, at the inputs where it fails. From an empty storage, a login with
  \<open>rememberMe = true\<close> followed by a session check leaves the user record in both
  scopes, with the session's \<open>rememberMe\<close> false: the remember-me record was written
  to the tab scope (the call leaves the scope argument out), the session check reads
  it from the durable scope, finds none, and writes the user to the tab scope without
  clearing the durable one. Likewise a signup after a login with \<open>rememberMe = false\<close>
  writes the durable scope and leaves the tab scope's record.
\<close>

theorem user_record_in_both_scopes:
  "(let \<sigma>1 = dispatch_login backend_up (JStr ''a@b.com'') (JStr ''x'') (JBool True)
               (empty_storage, initialState empty_storage);
        \<sigma>2 = dispatch_checkAuth backend_up \<sigma>1
    in localStorage (fst \<sigma>1) STORAGE_KEYS_USER = Some (prepareUserData laravel_user)
       \<and> sessionStorage (fst \<sigma>1) STORAGE_KEYS_USER = None
       \<and> localStorage (fst \<sigma>2) STORAGE_KEYS_USER = Some (prepareUserData laravel_user)
       \<and> sessionStorage (fst \<sigma>2) STORAGE_KEYS_USER = Some (prepareUserData laravel_user)
       \<and> rememberMe (snd \<sigma>2) = JBool False)
   \<and> (let \<sigma>1 = dispatch_login backend_up (JStr ''a@b.com'') (JStr ''x'') (JBool False)
               (empty_storage, initialState empty_storage);
        \<sigma>2 = dispatch_signup backend_up (JStr ''A'') (JStr ''a@b.com'') (JStr ''x'') (JStr ''x'') \<sigma>1
    in localStorage (fst \<sigma>2) STORAGE_KEYS_USER = Some (prepareUserData laravel_user)
       \<and> sessionStorage (fst \<sigma>2) STORAGE_KEYS_USER = Some (prepareUserData laravel_user)
       \<and> rememberMe (snd \<sigma>2) = JBool True)"
  by (simp add: thunk_defs request_defs storage_defs backend_up_def empty_storage_def
      laravel_user_def)

subsection \<open>The session check\<close>

text \<open>
  What a failed session check does, whatever failed: it returns a rejection value with
  the fixed message, no scope holds the user record, the tab scope holds no remember-me
  record, the durable scope's remember-me entry is as it was, and the session is failed.
\<close>

lemma checkAuth_failure:
  assumes "case get_profile net ''/user'' of
             Inl e \<Rightarrow> True | Inr r \<Rightarrow> \<not> truthy (prepareUserData (data r))"
  shows "snd (checkAuth net st) = Inl (JStr ''User not authenticated.'')"
    and "localStorage (fst (checkAuth net st)) STORAGE_KEYS_USER = None"
    and "sessionStorage (fst (checkAuth net st)) STORAGE_KEYS_USER = None"
    and "sessionStorage (fst (checkAuth net st)) STORAGE_KEYS_REMEMBER_ME = None"
    and "localStorage (fst (checkAuth net st)) STORAGE_KEYS_REMEMBER_ME
           = localStorage st STORAGE_KEYS_REMEMBER_ME"
    and "snd (dispatch_checkAuth net (st, s)) = rejected_session (JStr ''User not authenticated.'')"
proof -
  have c: "checkAuth net st = checkAuth_failed st"
    using assms by (auto simp: checkAuth_def Let_def split: sum.splits)
  show "snd (checkAuth net st) = Inl (JStr ''User not authenticated.'')"
    and "localStorage (fst (checkAuth net st)) STORAGE_KEYS_USER = None"
    and "sessionStorage (fst (checkAuth net st)) STORAGE_KEYS_USER = None"
    and "sessionStorage (fst (checkAuth net st)) STORAGE_KEYS_REMEMBER_ME = None"
    and "localStorage (fst (checkAuth net st)) STORAGE_KEYS_REMEMBER_ME
           = localStorage st STORAGE_KEYS_REMEMBER_ME"
    by (simp_all add: c checkAuth_failed_def storage_defs Let_def)
  show "snd (dispatch_checkAuth net (st, s)) = rejected_session (JStr ''User not authenticated.'')"
    by (simp add: dispatch_checkAuth_def c checkAuth_failed_def settle_def rejected_session_def
        or_else_def Let_def)
qed

text \<open>
  Claim C5. In a browser whose durable scope holds no remember-me record (the store
  never writes one there), whenever the profile fetch of the session check fails or
  yields no user: the check returns the rejection value "User not authenticated."
  (a value, not an exception), neither scope holds the user record or the remember-me
  record afterwards, and the session is failed with that message and no user.
\<close>

theorem failed_checkAuth_clears_storage_and_rejects:
  assumes "localStorage st STORAGE_KEYS_REMEMBER_ME = None"
    and "case get_profile net ''/user'' of
           Inl e \<Rightarrow> True | Inr r \<Rightarrow> \<not> truthy (prepareUserData (data r))"
  shows "snd (checkAuth net st) = Inl (JStr ''User not authenticated.'')
    \<and> localStorage (fst (checkAuth net st)) STORAGE_KEYS_USER = None
    \<and> sessionStorage (fst (checkAuth net st)) STORAGE_KEYS_USER = None
    \<and> localStorage (fst (checkAuth net st)) STORAGE_KEYS_REMEMBER_ME = None
    \<and> sessionStorage (fst (checkAuth net st)) STORAGE_KEYS_REMEMBER_ME = None
    \<and> fst (dispatch_checkAuth net (st, s)) = fst (checkAuth net st)
    \<and> snd (dispatch_checkAuth net (st, s))
        = \<lparr>user = JNull, isAuthenticated = False, rememberMe = JBool False, status = failed,
           error = JStr ''User not authenticated.''\<rparr>"
proof -
  have "fst (dispatch_checkAuth net (st, s)) = fst (checkAuth net st)"
    by (cases "checkAuth net st")
       (simp add: dispatch_checkAuth_def settle_def Let_def split: sum.splits thunk_name.splits)
  then show ?thesis
    using checkAuth_failure [OF assms(2)] assms(1)
    by (simp add: rejected_session_def)
qed

theorem failed_checkAuth_witness:
  "localStorage (fst (dispatch_login backend_up (JStr ''a@b.com'') (JStr ''x'') (JBool False)
       (empty_storage, initialState empty_storage))) STORAGE_KEYS_REMEMBER_ME = None
   \<and> sessionStorage (fst (dispatch_login backend_up (JStr ''a@b.com'') (JStr ''x'') (JBool False)
       (empty_storage, initialState empty_storage))) STORAGE_KEYS_USER
       = Some (prepareUserData laravel_user)
   \<and> sessionStorage (fst (dispatch_login backend_up (JStr ''a@b.com'') (JStr ''x'') (JBool False)
       (empty_storage, initialState empty_storage))) STORAGE_KEYS_REMEMBER_ME = Some (JBool False)
   \<and> get_profile backend_unauthenticated ''/user'' = Inl unauthenticated_error
   \<and> snd (checkAuth backend_unauthenticated
        (fst (dispatch_login backend_up (JStr ''a@b.com'') (JStr ''x'') (JBool False)
           (empty_storage, initialState empty_storage))))
       = Inl (JStr ''User not authenticated.'')
   \<and> sessionStorage (fst (checkAuth backend_unauthenticated
        (fst (dispatch_login backend_up (JStr ''a@b.com'') (JStr ''x'') (JBool False)
           (empty_storage, initialState empty_storage))))) STORAGE_KEYS_USER = None
   \<and> sessionStorage (fst (checkAuth backend_unauthenticated
        (fst (dispatch_login backend_up (JStr ''a@b.com'') (JStr ''x'') (JBool False)
           (empty_storage, initialState empty_storage))))) STORAGE_KEYS_REMEMBER_ME = None
   \<and> localStorage (fst (checkAuth backend_unauthenticated
        (fst (dispatch_login backend_up (JStr ''a@b.com'') (JStr ''x'') (JBool False)
           (empty_storage, initialState empty_storage))))) STORAGE_KEYS_USER = None
   \<and> localStorage (fst (checkAuth backend_unauthenticated
        (fst (dispatch_login backend_up (JStr ''a@b.com'') (JStr ''x'') (JBool False)
           (empty_storage, initialState empty_storage))))) STORAGE_KEYS_REMEMBER_ME = None
   \<and> status (snd (dispatch_checkAuth backend_unauthenticated
        (dispatch_login backend_up (JStr ''a@b.com'') (JStr ''x'') (JBool False)
           (empty_storage, initialState empty_storage)))) = failed
   \<and> get_profile (\<lambda>config. Inr \<lparr>status_code = 200, data = JStr []\<rparr>) ''/user''
       = Inr \<lparr>status_code = 200, data = JStr []\<rparr>
   \<and> prepareUserData (JStr []) = JNull
   \<and> snd (checkAuth (\<lambda>config. Inr \<lparr>status_code = 200, data = JStr []\<rparr>) empty_storage)
       = Inl (JStr ''User not authenticated.'')"
proof -
  let ?\<sigma> = "dispatch_login backend_up (JStr ''a@b.com'') (JStr ''x'') (JBool False)
       (empty_storage, initialState empty_storage)"
  let ?blank = "\<lambda>config :: request_config.
     (Inr \<lparr>status_code = 200, data = JStr []\<rparr> :: api_error + http_response)"
  have a: "localStorage (fst ?\<sigma>) STORAGE_KEYS_REMEMBER_ME = None"
    by (simp add: thunk_defs request_defs storage_defs backend_up_def empty_storage_def
        laravel_user_def)
  have b: "sessionStorage (fst ?\<sigma>) STORAGE_KEYS_USER = Some (prepareUserData laravel_user)
      \<and> sessionStorage (fst ?\<sigma>) STORAGE_KEYS_REMEMBER_ME = Some (JBool False)"
    by (simp add: thunk_defs request_defs storage_defs backend_up_def empty_storage_def
        laravel_user_def)
  have g: "get_profile backend_unauthenticated ''/user'' = Inl unauthenticated_error"
    by (simp add: request_defs backend_unauthenticated_def)
  have f: "case get_profile backend_unauthenticated ''/user'' of
           Inl e \<Rightarrow> True | Inr r \<Rightarrow> \<not> truthy (prepareUserData (data r))"
    by (simp add: g)
  have e: "localStorage empty_storage STORAGE_KEYS_REMEMBER_ME = None"
    by (simp add: empty_storage_def)
  have h: "get_profile ?blank ''/user'' = Inr \<lparr>status_code = 200, data = JStr []\<rparr>"
    by (simp add: request_defs)
  have p: "prepareUserData (JStr []) = JNull"
    by (simp add: prepareUserData_def)
  have k: "case get_profile ?blank ''/user'' of
           Inl e \<Rightarrow> True | Inr r \<Rightarrow> \<not> truthy (prepareUserData (data r))"
    by (simp add: h p)
  note t = failed_checkAuth_clears_storage_and_rejects [OF a f, where s = "snd ?\<sigma>"]
  note t' = failed_checkAuth_clears_storage_and_rejects [OF e k, where s = "initialState empty_storage"]
  have s: "status (snd (dispatch_checkAuth backend_unauthenticated ?\<sigma>)) = failed"
    using t unfolding prod.collapse by simp
  show ?thesis
    using a b g h p s t t' by simp
qed

subsection \<open>Rejected operations\<close>

lemma filter_strings_JStr: "filter_strings (map JStr ms @ xs) = ms @ filter_strings xs"
  by (induction ms) auto

lemma messages_of_field_errors:
  "filter_strings (flat (object_values (field_errors fes))) = concat (map snd fes)"
proof -
  have "filter_strings (flat (map (\<lambda>(field, msgs). JArr (map JStr msgs)) fes)) = concat (map snd fes)"
    by (induction fes) (auto simp: filter_strings_JStr split: prod.splits)
  then show ?thesis
    by (simp add: field_errors_def comp_def case_prod_unfold)
qed

lemma getLaravelErrorMessage_validation:
  assumes "response err = Some r" and "get_prop (data r) ''errors'' = field_errors fes"
  shows "getLaravelErrorMessage err d = JStr (join '' '' (concat (map snd fes)))"
proof -
  have "truthy (data r)" using assms(2) by (cases "data r") (simp_all add: field_errors_def)
  moreover have "truthy (field_errors fes)" by (simp add: field_errors_def)
  ultimately show ?thesis
    using assms by (simp add: getLaravelErrorMessage_def messages_of_field_errors)
qed

lemma getLaravelErrorMessage_general:
  assumes "response err = Some r" and "\<not> truthy (get_prop (data r) ''errors'')"
    and "truthy (get_prop (data r) ''message'')"
  shows "getLaravelErrorMessage err d = get_prop (data r) ''message''"
proof -
  have "truthy (data r)" using assms(3) by (cases "data r") simp_all
  then show ?thesis using assms by (simp add: getLaravelErrorMessage_def)
qed

lemma getLaravelErrorMessage_fallback:
  assumes "case response err of
             None \<Rightarrow> True
           | Some r \<Rightarrow> \<not> truthy (get_prop (data r) ''errors'') \<and> \<not> truthy (get_prop (data r) ''message'')"
  shows "getLaravelErrorMessage err d = JStr (if message err \<noteq> [] then message err else d)"
  using assms by (auto simp: getLaravelErrorMessage_def Let_def split: option.splits)

text \<open>What each thunk returns, by the outcome of its requests.\<close>

lemma signup_outcomes:
  "post_register net name email password pc = Inl e \<Longrightarrow>
     signup net name email password pc st
       = (st, Inl (getLaravelErrorMessage e ''Signup failed. Please try again.''))"
  "post_register net name email password pc = Inr r0 \<Longrightarrow> get_profile net ''/user'' = Inl e \<Longrightarrow>
     signup net name email password pc st
       = (st, Inl (getLaravelErrorMessage e ''Signup failed. Please try again.''))"
  "post_register net name email password pc = Inr r0 \<Longrightarrow> get_profile net ''/user'' = Inr r1 \<Longrightarrow>
   \<not> truthy (prepareUserData (data r1)) \<Longrightarrow>
     signup net name email password pc st = (st, Inl (JStr ''User data not found after signup.''))"
  "post_register net name email password pc = Inr r0 \<Longrightarrow> get_profile net ''/user'' = Inr r1 \<Longrightarrow>
   truthy (prepareUserData (data r1)) \<Longrightarrow>
     \<not> isl (snd (signup net name email password pc st))"
  by (simp_all add: signup_def Let_def)

lemma login_outcomes:
  "post_credentials net email password (if rm = JUndefined then JBool False else rm) = Inl e \<Longrightarrow>
     login net email password rm st
       = (st, Inl (getLaravelErrorMessage e ''Login failed. Please check your credentials.''))"
  "post_credentials net email password (if rm = JUndefined then JBool False else rm) = Inr r0 \<Longrightarrow>
   get_profile net ''/api/user'' = Inl e \<Longrightarrow>
     login net email password rm st
       = (st, Inl (getLaravelErrorMessage e ''Login failed. Please check your credentials.''))"
  "post_credentials net email password (if rm = JUndefined then JBool False else rm) = Inr r0 \<Longrightarrow>
   get_profile net ''/api/user'' = Inr r1 \<Longrightarrow> \<not> truthy (prepareUserData (data r1)) \<Longrightarrow>
     login net email password rm st = (st, Inl (JStr ''User data not found after login.''))"
  "post_credentials net email password (if rm = JUndefined then JBool False else rm) = Inr r0 \<Longrightarrow>
   get_profile net ''/api/user'' = Inr r1 \<Longrightarrow> truthy (prepareUserData (data r1)) \<Longrightarrow>
     \<not> isl (snd (login net email password rm st))"
  by (simp_all add: login_def Let_def)

lemma signup_rejection_cases:
  assumes "isl (snd (signup net name email password pc st))"
  shows "isl (post_register net name email password pc) \<or> isl (get_profile net ''/user'')
     \<or> (\<exists>r1. get_profile net ''/user'' = Inr r1 \<and> \<not> truthy (prepareUserData (data r1)))"
proof (cases "post_register net name email password pc")
  case (Inl e)
  then show ?thesis by simp
next
  case post: (Inr r0)
  show ?thesis
  proof (cases "get_profile net ''/user''")
    case (Inl e)
    then show ?thesis by simp
  next
    case (Inr r1)
    with post assms signup_outcomes(4) [of net name email password pc r0 r1 st]
    show ?thesis by auto
  qed
qed

lemma login_rejection_cases:
  assumes "isl (snd (login net email password rm st))"
  shows "isl (post_credentials net email password (if rm = JUndefined then JBool False else rm))
     \<or> isl (get_profile net ''/api/user'')
     \<or> (\<exists>r1. get_profile net ''/api/user'' = Inr r1 \<and> \<not> truthy (prepareUserData (data r1)))"
proof (cases "post_credentials net email password (if rm = JUndefined then JBool False else rm)")
  case (Inl e)
  then show ?thesis by simp
next
  case post: (Inr r0)
  show ?thesis
  proof (cases "get_profile net ''/api/user''")
    case (Inl e)
    then show ?thesis by simp
  next
    case (Inr r1)
    with post assms login_outcomes(4) [of net email password rm r0 r1 st]
    show ?thesis by auto
  qed
qed

lemma dispatch_signup_rejected:
  "signup net name email password pc st = (st, Inl v) \<Longrightarrow>
   dispatch_signup net name email password pc (st, s)
     = (st, rejected_session (or_else v (JStr ''An unknown error occurred.'')))"
  by (simp add: dispatch_signup_def settle_def rejected_session_def Let_def)

lemma dispatch_login_rejected:
  "login net email password rm st = (st, Inl v) \<Longrightarrow>
   dispatch_login net email password rm (st, s)
     = (st, rejected_session (or_else v (JStr ''An unknown error occurred.'')))"
  by (simp add: dispatch_login_def settle_def rejected_session_def Let_def)

lemma checkAuth_rejected:
  assumes "snd (checkAuth net st) = Inl v"
  shows "v = JStr ''User not authenticated.''"
  using assms by (auto simp: checkAuth_def checkAuth_failed_def Let_def split: sum.splits if_splits)

lemma rejected_reducer:
  "t \<noteq> LogoutUser \<Longrightarrow>
   snd (authReducer (Rejected t v) (st, s)) =
     rejected_session (or_else v (JStr ''An unknown error occurred.''))"
  by (cases t) (simp_all add: rejected_session_def Let_def)

text \<open>
  Claim C3 as stated fails for the session check. The backend answers the profile
  request with 401, no field-level messages and the general message "Unauthenticated.";
  the session's error is not that message but the fixed "User not authenticated.".
\<close>

theorem checkAuth_error_is_not_the_backend_message:
  "get_profile backend_unauthenticated ''/user'' = Inl unauthenticated_error
   \<and> response unauthenticated_error = Some unauthenticated_response
   \<and> get_prop (data unauthenticated_response) ''errors'' = JUndefined
   \<and> get_prop (data unauthenticated_response) ''message'' = JStr ''Unauthenticated.''
   \<and> snd (checkAuth backend_unauthenticated empty_storage) = Inl (JStr ''User not authenticated.'')
   \<and> error (snd (dispatch_checkAuth backend_unauthenticated (empty_storage, initialState empty_storage)))
       = JStr ''User not authenticated.''
   \<and> error (snd (dispatch_checkAuth backend_unauthenticated (empty_storage, initialState empty_storage)))
       \<noteq> JStr ''Unauthenticated.''"
  by (simp add: thunk_defs request_defs storage_defs rejected_session_def
      backend_unauthenticated_def unauthenticated_error_def unauthenticated_response_def
      empty_storage_def)

text \<open>
  Claim C3, amended. A rejected signup, login or session check leaves the session
  with status failed, \<open>isAuthenticated\<close> false, \<open>user\<close> null and \<open>rememberMe\<close> false.
  Signup and login are rejected in exactly three cases, and leave the storage as it
  was: when the form's POST fails with the error \<open>e\<close>, the error of the session is the
  message drawn from \<open>e\<close>; when the POST succeeds and the profile request fails with
  \<open>e\<close>, it is the message drawn from that \<open>e\<close>; when both succeed and the profile is
  empty, it is "User data not found after signup." (login: "... after login."). The
  message drawn from an error is: the backend's field-level messages in order, joined
  by single spaces, when the response carries them; else the response's general
  message; else the error's own message, or the operation's default text when it has
  none; and "An unknown error occurred." stands in for an empty message. For the
  session check the error is always "User not authenticated.".
\<close>

theorem rejected_operation_fails_the_session:
  "(post_register net name email password confirmation = Inl e \<longrightarrow>
      dispatch_signup net name email password confirmation (st, s)
        = (st, rejected_session
                 (or_else (getLaravelErrorMessage e ''Signup failed. Please try again.'')
                    (JStr ''An unknown error occurred.''))))
   \<and> (post_register net name email password confirmation = Inr r0
       \<and> get_profile net ''/user'' = Inl e \<longrightarrow>
      dispatch_signup net name email password confirmation (st, s)
        = (st, rejected_session
                 (or_else (getLaravelErrorMessage e ''Signup failed. Please try again.'')
                    (JStr ''An unknown error occurred.''))))
   \<and> (post_register net name email password confirmation = Inr r0
       \<and> get_profile net ''/user'' = Inr r1 \<and> \<not> truthy (prepareUserData (data r1)) \<longrightarrow>
      dispatch_signup net name email password confirmation (st, s)
        = (st, rejected_session (JStr ''User data not found after signup.'')))
   \<and> (isl (snd (signup net name email password confirmation st)) \<longrightarrow>
      isl (post_register net name email password confirmation) \<or> isl (get_profile net ''/user'')
      \<or> (\<exists>r. get_profile net ''/user'' = Inr r \<and> \<not> truthy (prepareUserData (data r))))
   \<and> (post_credentials net email password (if rm = JUndefined then JBool False else rm) = Inl e \<longrightarrow>
      dispatch_login net email password rm (st, s)
        = (st, rejected_session
                 (or_else (getLaravelErrorMessage e ''Login failed. Please check your credentials.'')
                    (JStr ''An unknown error occurred.''))))
   \<and> (post_credentials net email password (if rm = JUndefined then JBool False else rm) = Inr r0
       \<and> get_profile net ''/api/user'' = Inl e \<longrightarrow>
      dispatch_login net email password rm (st, s)
        = (st, rejected_session
                 (or_else (getLaravelErrorMessage e ''Login failed. Please check your credentials.'')
                    (JStr ''An unknown error occurred.''))))
   \<and> (post_credentials net email password (if rm = JUndefined then JBool False else rm) = Inr r0
       \<and> get_profile net ''/api/user'' = Inr r1 \<and> \<not> truthy (prepareUserData (data r1)) \<longrightarrow>
      dispatch_login net email password rm (st, s)
        = (st, rejected_session (JStr ''User data not found after login.'')))
   \<and> (isl (snd (login net email password rm st)) \<longrightarrow>
      isl (post_credentials net email password (if rm = JUndefined then JBool False else rm))
      \<or> isl (get_profile net ''/api/user'')
      \<or> (\<exists>r. get_profile net ''/api/user'' = Inr r \<and> \<not> truthy (prepareUserData (data r))))
   \<and> (isl (snd (checkAuth net st)) \<longrightarrow>
      snd (dispatch_checkAuth net (st, s)) = rejected_session (JStr ''User not authenticated.''))
   \<and> rejected_session msg
       = \<lparr>user = JNull, isAuthenticated = False, rememberMe = JBool False, status = failed,
          error = msg\<rparr>
   \<and> (response err = Some r \<and> get_prop (data r) ''errors'' = field_errors fes \<longrightarrow>
      getLaravelErrorMessage err d = JStr (join '' '' (concat (map snd fes))))
   \<and> (response err = Some r \<and> \<not> truthy (get_prop (data r) ''errors'')
        \<and> truthy (get_prop (data r) ''message'') \<longrightarrow>
      getLaravelErrorMessage err d = get_prop (data r) ''message'')
   \<and> ((case response err of
          None \<Rightarrow> True
        | Some r \<Rightarrow> \<not> truthy (get_prop (data r) ''errors'') \<and> \<not> truthy (get_prop (data r) ''message''))
       \<longrightarrow> getLaravelErrorMessage err d = JStr (if message err \<noteq> [] then message err else d))"
proof (intro conjI impI)
  assume "post_register net name email password confirmation = Inl e"
  then show "dispatch_signup net name email password confirmation (st, s)
        = (st, rejected_session
                 (or_else (getLaravelErrorMessage e ''Signup failed. Please try again.'')
                    (JStr ''An unknown error occurred.'')))"
    by (intro dispatch_signup_rejected signup_outcomes(1))
next
  assume "post_register net name email password confirmation = Inr r0
       \<and> get_profile net ''/user'' = Inl e"
  then show "dispatch_signup net name email password confirmation (st, s)
        = (st, rejected_session
                 (or_else (getLaravelErrorMessage e ''Signup failed. Please try again.'')
                    (JStr ''An unknown error occurred.'')))"
    by (intro dispatch_signup_rejected signup_outcomes(2) [of _ _ _ _ _ r0]) simp_all
next
  assume "post_register net name email password confirmation = Inr r0
       \<and> get_profile net ''/user'' = Inr r1 \<and> \<not> truthy (prepareUserData (data r1))"
  then have "signup net name email password confirmation st
      = (st, Inl (JStr ''User data not found after signup.''))"
    by (intro signup_outcomes(3) [of _ _ _ _ _ r0 r1]) simp_all
  then show "dispatch_signup net name email password confirmation (st, s)
        = (st, rejected_session (JStr ''User data not found after signup.''))"
    using dispatch_signup_rejected [of net name email password confirmation st _ s]
    by (simp add: or_else_def)
next
  assume "isl (snd (signup net name email password confirmation st))"
  then show "isl (post_register net name email password confirmation) \<or> isl (get_profile net ''/user'')
      \<or> (\<exists>r. get_profile net ''/user'' = Inr r \<and> \<not> truthy (prepareUserData (data r)))"
    by (rule signup_rejection_cases)
next
  assume "post_credentials net email password (if rm = JUndefined then JBool False else rm) = Inl e"
  then show "dispatch_login net email password rm (st, s)
        = (st, rejected_session
                 (or_else (getLaravelErrorMessage e ''Login failed. Please check your credentials.'')
                    (JStr ''An unknown error occurred.'')))"
    by (intro dispatch_login_rejected login_outcomes(1))
next
  assume "post_credentials net email password (if rm = JUndefined then JBool False else rm) = Inr r0
       \<and> get_profile net ''/api/user'' = Inl e"
  then show "dispatch_login net email password rm (st, s)
        = (st, rejected_session
                 (or_else (getLaravelErrorMessage e ''Login failed. Please check your credentials.'')
                    (JStr ''An unknown error occurred.'')))"
    by (intro dispatch_login_rejected login_outcomes(2) [of _ _ _ _ r0]) simp_all
next
  assume "post_credentials net email password (if rm = JUndefined then JBool False else rm) = Inr r0
       \<and> get_profile net ''/api/user'' = Inr r1 \<and> \<not> truthy (prepareUserData (data r1))"
  then have "login net email password rm st = (st, Inl (JStr ''User data not found after login.''))"
    by (intro login_outcomes(3) [of _ _ _ _ r0 r1]) simp_all
  then show "dispatch_login net email password rm (st, s)
        = (st, rejected_session (JStr ''User data not found after login.''))"
    using dispatch_login_rejected [of net email password rm st _ s]
    by (simp add: or_else_def)
next
  assume "isl (snd (login net email password rm st))"
  then show "isl (post_credentials net email password (if rm = JUndefined then JBool False else rm))
      \<or> isl (get_profile net ''/api/user'')
      \<or> (\<exists>r. get_profile net ''/api/user'' = Inr r \<and> \<not> truthy (prepareUserData (data r)))"
    by (rule login_rejection_cases)
next
  assume "isl (snd (checkAuth net st))"
  then obtain v where v: "snd (checkAuth net st) = Inl v"
    by (cases "snd (checkAuth net st)") auto
  then have "checkAuth net st = (fst (checkAuth net st), Inl (JStr ''User not authenticated.''))"
    using checkAuth_rejected [OF v] by (cases "checkAuth net st") simp
  then obtain st' where "checkAuth net st = (st', Inl (JStr ''User not authenticated.''))" ..
  then show "snd (dispatch_checkAuth net (st, s)) = rejected_session (JStr ''User not authenticated.'')"
    by (simp add: dispatch_checkAuth_def settle_def rejected_session_def or_else_def Let_def)
next
  show "rejected_session msg
       = \<lparr>user = JNull, isAuthenticated = False, rememberMe = JBool False, status = failed,
          error = msg\<rparr>"
    by (simp add: rejected_session_def)
next
  assume "response err = Some r \<and> get_prop (data r) ''errors'' = field_errors fes"
  then show "getLaravelErrorMessage err d = JStr (join '' '' (concat (map snd fes)))"
    by (simp add: getLaravelErrorMessage_validation)
next
  assume "response err = Some r \<and> \<not> truthy (get_prop (data r) ''errors'')
        \<and> truthy (get_prop (data r) ''message'')"
  then show "getLaravelErrorMessage err d = get_prop (data r) ''message''"
    by (simp add: getLaravelErrorMessage_general)
next
  assume "case response err of
          None \<Rightarrow> True
        | Some r \<Rightarrow> \<not> truthy (get_prop (data r) ''errors'') \<and> \<not> truthy (get_prop (data r) ''message'')"
  then show "getLaravelErrorMessage err d = JStr (if message err \<noteq> [] then message err else d)"
    by (rule getLaravelErrorMessage_fallback)
qed

theorem rejected_operation_witness:
  "post_register backend_invalid (JStr []) (JStr []) (JStr []) (JStr []) = Inl invalid_error
   \<and> dispatch_signup backend_invalid (JStr []) (JStr []) (JStr []) (JStr [])
        (empty_storage, initialState empty_storage)
     = (empty_storage,
        rejected_session (JStr ''The email field is required. The password field is required.''))
   \<and> post_register backend_profile_refused (JStr []) (JStr []) (JStr []) (JStr [])
     = Inr \<lparr>status_code = 204, data = JStr []\<rparr>
   \<and> get_profile backend_profile_refused ''/user'' = Inl unauthenticated_error
   \<and> dispatch_signup backend_profile_refused (JStr []) (JStr []) (JStr []) (JStr [])
        (empty_storage, initialState empty_storage)
     = (empty_storage, rejected_session (JStr ''Unauthenticated.''))
   \<and> post_register backend_blank (JStr []) (JStr []) (JStr []) (JStr [])
     = Inr \<lparr>status_code = 200, data = JStr []\<rparr>
   \<and> get_profile backend_blank ''/user'' = Inr \<lparr>status_code = 200, data = JStr []\<rparr>
   \<and> \<not> truthy (prepareUserData (JStr []))
   \<and> dispatch_signup backend_blank (JStr []) (JStr []) (JStr []) (JStr [])
        (empty_storage, initialState empty_storage)
     = (empty_storage, rejected_session (JStr ''User data not found after signup.''))
   \<and> isl (snd (signup backend_blank (JStr []) (JStr []) (JStr []) (JStr []) empty_storage))
   \<and> post_credentials backend_invalid (JStr []) (JStr []) (JBool False) = Inl invalid_error
   \<and> dispatch_login backend_invalid (JStr []) (JStr []) JUndefined
        (empty_storage, initialState empty_storage)
     = (empty_storage,
        rejected_session (JStr ''The email field is required. The password field is required.''))
   \<and> post_credentials backend_profile_refused (JStr []) (JStr []) (JBool False)
     = Inr \<lparr>status_code = 204, data = JStr []\<rparr>
   \<and> get_profile backend_profile_refused ''/api/user'' = Inl unauthenticated_error
   \<and> dispatch_login backend_profile_refused (JStr []) (JStr []) JUndefined
        (empty_storage, initialState empty_storage)
     = (empty_storage, rejected_session (JStr ''Unauthenticated.''))
   \<and> post_credentials backend_blank (JStr []) (JStr []) (JBool False)
     = Inr \<lparr>status_code = 200, data = JStr []\<rparr>
   \<and> get_profile backend_blank ''/api/user'' = Inr \<lparr>status_code = 200, data = JStr []\<rparr>
   \<and> dispatch_login backend_blank (JStr []) (JStr []) JUndefined
        (empty_storage, initialState empty_storage)
     = (empty_storage, rejected_session (JStr ''User data not found after login.''))
   \<and> isl (snd (login backend_blank (JStr []) (JStr []) JUndefined empty_storage))
   \<and> isl (snd (checkAuth backend_profile_refused empty_storage))
   \<and> snd (dispatch_checkAuth backend_profile_refused (empty_storage, initialState empty_storage))
     = \<lparr>user = JNull, isAuthenticated = False, rememberMe = JBool False, status = failed,
        error = JStr ''User not authenticated.''\<rparr>
   \<and> getLaravelErrorMessage invalid_error ''Login failed. Please check your credentials.''
     = JStr ''The email field is required. The password field is required.''
   \<and> getLaravelErrorMessage unauthenticated_error ''Login failed. Please check your credentials.''
     = JStr ''Unauthenticated.''
   \<and> getLaravelErrorMessage \<lparr>response = None, message = ''Network Error''\<rparr>
        ''Login failed. Please check your credentials.''
     = JStr ''Network Error''"
proof -
  let ?v = "JStr ''The email field is required. The password field is required.''"
  let ?d = "''Login failed. Please check your credentials.''"
  let ?init = "initialState empty_storage"
  have e1: "response invalid_error = Some invalid_response
      \<and> get_prop (data invalid_response) ''errors''
          = field_errors [(''email'', [''The email field is required.'']),
                          (''password'', [''The password field is required.''])]"
    by (simp add: invalid_error_def invalid_response_def)
  have e2: "response unauthenticated_error = Some unauthenticated_response
      \<and> \<not> truthy (get_prop (data unauthenticated_response) ''errors'')
      \<and> truthy (get_prop (data unauthenticated_response) ''message'')"
    by (simp add: unauthenticated_error_def unauthenticated_response_def)
  have e3: "case response \<lparr>response = None, message = ''Network Error''\<rparr> of
          None \<Rightarrow> True
        | Some r \<Rightarrow> \<not> truthy (get_prop (data r) ''errors'') \<and> \<not> truthy (get_prop (data r) ''message'')"
    by simp
  have m1: "getLaravelErrorMessage invalid_error d = ?v" for d
    using rejected_operation_fails_the_session
      [where err = invalid_error and r = invalid_response and d = d
         and fes = "[(''email'', [''The email field is required.'']),
                     (''password'', [''The password field is required.''])]"] e1
    by simp
  have m2: "getLaravelErrorMessage unauthenticated_error d = JStr ''Unauthenticated.''" for d
    using rejected_operation_fails_the_session
      [where err = unauthenticated_error and r = unauthenticated_response and d = d] e2
    by (simp add: unauthenticated_response_def)
  have m3: "getLaravelErrorMessage \<lparr>response = None, message = ''Network Error''\<rparr> ?d
      = JStr ''Network Error''"
    using rejected_operation_fails_the_session
      [where err = "\<lparr>response = None, message = ''Network Error''\<rparr>" and d = ?d] e3
    by simp
  have i1: "post_register backend_invalid (JStr []) (JStr []) (JStr []) (JStr []) = Inl invalid_error"
    and i2: "post_credentials backend_invalid (JStr []) (JStr []) (JBool False) = Inl invalid_error"
    by (simp_all add: request_defs backend_invalid_def)
  have p1: "post_register backend_profile_refused (JStr []) (JStr []) (JStr []) (JStr [])
      = Inr \<lparr>status_code = 204, data = JStr []\<rparr>"
    and p2: "post_credentials backend_profile_refused (JStr []) (JStr []) (JBool False)
      = Inr \<lparr>status_code = 204, data = JStr []\<rparr>"
    and p3: "get_profile backend_profile_refused ''/user'' = Inl unauthenticated_error"
    and p4: "get_profile backend_profile_refused ''/api/user'' = Inl unauthenticated_error"
    by (simp_all add: request_defs backend_profile_refused_def)
  have b1: "post_register backend_blank (JStr []) (JStr []) (JStr []) (JStr [])
      = Inr \<lparr>status_code = 200, data = JStr []\<rparr>"
    and b2: "post_credentials backend_blank (JStr []) (JStr []) (JBool False)
      = Inr \<lparr>status_code = 200, data = JStr []\<rparr>"
    and b3: "get_profile backend_blank ''/user'' = Inr \<lparr>status_code = 200, data = JStr []\<rparr>"
    and b4: "get_profile backend_blank ''/api/user'' = Inr \<lparr>status_code = 200, data = JStr []\<rparr>"
    by (simp_all add: request_defs backend_blank_def)
  have np: "\<not> truthy (prepareUserData (JStr []))"
    by (simp add: prepareUserData_def)
  have u: "(if (JUndefined :: json) = JUndefined then JBool False else JUndefined) = JBool False"
    by simp
  note inv = rejected_operation_fails_the_session
    [where net = backend_invalid and name = "JStr []" and email = "JStr []"
       and password = "JStr []" and confirmation = "JStr []" and rm = JUndefined
       and st = empty_storage and s = ?init and e = invalid_error]
  note ref = rejected_operation_fails_the_session
    [where net = backend_profile_refused and name = "JStr []" and email = "JStr []"
       and password = "JStr []" and confirmation = "JStr []" and rm = JUndefined
       and st = empty_storage and s = ?init and e = unauthenticated_error
       and ?r0.0 = "\<lparr>status_code = 204, data = JStr []\<rparr>"]
  note bl = rejected_operation_fails_the_session
    [where net = backend_blank and name = "JStr []" and email = "JStr []"
       and password = "JStr []" and confirmation = "JStr []" and rm = JUndefined
       and st = empty_storage and s = ?init
       and ?r0.0 = "\<lparr>status_code = 200, data = JStr []\<rparr>"
       and ?r1.0 = "\<lparr>status_code = 200, data = JStr []\<rparr>"]
  have s1: "dispatch_signup backend_invalid (JStr []) (JStr []) (JStr []) (JStr []) (empty_storage, ?init)
      = (empty_storage, rejected_session ?v)"
    using inv i1 by (simp add: m1 or_else_def)
  have l1: "dispatch_login backend_invalid (JStr []) (JStr []) JUndefined (empty_storage, ?init)
      = (empty_storage, rejected_session ?v)"
    using inv i2 by (simp add: m1 or_else_def)
  have s2: "dispatch_signup backend_profile_refused (JStr []) (JStr []) (JStr []) (JStr [])
        (empty_storage, ?init) = (empty_storage, rejected_session (JStr ''Unauthenticated.''))"
    using ref p1 p3 by (simp add: m2 or_else_def)
  have l2: "dispatch_login backend_profile_refused (JStr []) (JStr []) JUndefined
        (empty_storage, ?init) = (empty_storage, rejected_session (JStr ''Unauthenticated.''))"
    using ref p2 p4 by (simp add: m2 or_else_def)
  have s3: "dispatch_signup backend_blank (JStr []) (JStr []) (JStr []) (JStr [])
        (empty_storage, ?init)
      = (empty_storage, rejected_session (JStr ''User data not found after signup.''))"
    using bl b1 b3 np by simp
  have l3: "dispatch_login backend_blank (JStr []) (JStr []) JUndefined (empty_storage, ?init)
      = (empty_storage, rejected_session (JStr ''User data not found after login.''))"
    using bl b2 b4 np by simp
  have r1: "isl (snd (signup backend_blank (JStr []) (JStr []) (JStr []) (JStr []) empty_storage))"
    and r2: "isl (snd (login backend_blank (JStr []) (JStr []) JUndefined empty_storage))"
    using signup_outcomes(3) [OF b1 b3, of empty_storage] login_outcomes(3) [of backend_blank
        "JStr []" "JStr []" JUndefined _ _ empty_storage] b2 b4 np
    by simp_all
  have c: "isl (snd (checkAuth backend_profile_refused empty_storage))"
    by (simp add: checkAuth_def checkAuth_failed_def p3 Let_def)
  have c1: "snd (dispatch_checkAuth backend_profile_refused (empty_storage, ?init))
     = \<lparr>user = JNull, isAuthenticated = False, rememberMe = JBool False, status = failed,
        error = JStr ''User not authenticated.''\<rparr>"
    using ref c by simp
  show ?thesis
    using i1 i2 p1 p2 p3 p4 b1 b2 b3 b4 np s1 s2 s3 l1 l2 l3 r1 r2 c c1 m1 m2 m3 by simp
qed

subsection \<open>The user kept in the session\<close>

lemma prepareUserData_nullish: "nullish p \<Longrightarrow> prepareUserData p = JNull"
  by (cases p) (simp_all add: prepareUserData_def)

lemma prepareUserData_object:
  "prepareUserData (JObj kvs) =
     JObj [(''id'', get_prop (JObj kvs) ''id''), (''name'', get_prop (JObj kvs) ''name''),
           (''email'', get_prop (JObj kvs) ''email''),
           (''roles'', or_else (get_prop (JObj kvs) ''roles'') (JArr [])),
           (''permissions'', or_else (get_prop (JObj kvs) ''permissions'') (JArr []))]"
  by (simp add: prepareUserData_def)

lemma or_else_array:
  "array_or_absent v \<Longrightarrow> or_else v (JArr []) = (if nullish v then JArr [] else v)"
  "array_or_absent v \<Longrightarrow> is_array (or_else v (JArr []))"
  by (cases v; simp add: array_or_absent_def or_else_def)+

lemma prepareUserData_payload:
  assumes "user_payload p" and "\<not> nullish p"
  shows "truthy (prepareUserData p)"
    and "get_prop (prepareUserData p) ''roles'' =
           (if nullish (get_prop p ''roles'') then JArr [] else get_prop p ''roles'')"
    and "get_prop (prepareUserData p) ''permissions'' =
           (if nullish (get_prop p ''permissions'') then JArr [] else get_prop p ''permissions'')"
    and "has_array_roles (prepareUserData p)"
proof -
  obtain kvs where p: "p = JObj kvs" using assms by (cases p) auto
  have a: "array_or_absent (get_prop (JObj kvs) ''roles'')"
    and b: "array_or_absent (get_prop (JObj kvs) ''permissions'')"
    using assms(1) by (simp_all add: p)
  show "truthy (prepareUserData p)"
    unfolding p prepareUserData_object by simp
  show "get_prop (prepareUserData p) ''roles'' =
           (if nullish (get_prop p ''roles'') then JArr [] else get_prop p ''roles'')"
    unfolding p prepareUserData_object using or_else_array(1) [OF a] by simp
  show "get_prop (prepareUserData p) ''permissions'' =
           (if nullish (get_prop p ''permissions'') then JArr [] else get_prop p ''permissions'')"
    unfolding p prepareUserData_object using or_else_array(1) [OF b] by simp
  show "has_array_roles (prepareUserData p)"
    unfolding p prepareUserData_object has_array_roles_def
    using or_else_array(2) [OF a] or_else_array(2) [OF b] by simp
qed

lemma prepared_user_ok:
  assumes "user_payload p"
  shows "prepareUserData p = JNull \<or> has_array_roles (prepareUserData p)"
  using prepareUserData_nullish [of p] prepareUserData_payload(4) [OF assms] by blast

lemma signup_user:
  "user (snd (dispatch_signup net name email password pc (st, s))) = JNull
   \<or> (\<exists>r. get_profile net ''/user'' = Inr r
          \<and> user (snd (dispatch_signup net name email password pc (st, s))) = prepareUserData (data r))"
  by (auto simp: dispatch_signup_def signup_def settle_def fulfilled_payload_def Let_def
      split: sum.splits)

lemma login_user:
  "user (snd (dispatch_login net email password rm (st, s))) = JNull
   \<or> (\<exists>r. get_profile net ''/api/user'' = Inr r
          \<and> user (snd (dispatch_login net email password rm (st, s))) = prepareUserData (data r))"
  by (auto simp: dispatch_login_def login_def settle_def fulfilled_payload_def Let_def
      split: sum.splits)

lemma checkAuth_user:
  "user (snd (dispatch_checkAuth net (st, s))) = JNull
   \<or> (\<exists>r. get_profile net ''/user'' = Inr r
          \<and> user (snd (dispatch_checkAuth net (st, s))) = prepareUserData (data r))"
  by (auto simp: dispatch_checkAuth_def checkAuth_def checkAuth_failed_def settle_def
      fulfilled_payload_def Let_def split: sum.splits)

lemma answered_user_ok:
  assumes "answers_user_payload net u"
    and "x = JNull \<or> (\<exists>r. get_profile net u = Inr r \<and> x = prepareUserData (data r))"
  shows "x = JNull \<or> has_array_roles x"
  using assms(2)
proof
  assume "x = JNull"
  then show ?thesis ..
next
  assume "\<exists>r. get_profile net u = Inr r \<and> x = prepareUserData (data r)"
  then obtain r where r: "get_profile net u = Inr r" and x: "x = prepareUserData (data r)"
    by blast
  have "user_payload (data r)"
    using assms(1) r by (simp add: answers_user_payload_def)
  then show ?thesis
    unfolding x by (rule prepared_user_ok)
qed

text \<open>
  Claim C10. On no payload (null or undefined) \<open>prepareUserData\<close> returns null. On any
  other user payload of the backend it returns a user whose \<open>roles\<close> field is the
  payload's array, or the empty array when the payload has none, and the same for
  \<open>permissions\<close>; both are arrays. Hence the user that a signup, a login or a session
  check leaves in the session, when the backend answers the profile request with a
  user payload, is null or has array-valued roles and permissions.
\<close>

theorem prepareUserData_gives_array_roles_and_permissions:
  "(nullish p \<longrightarrow> prepareUserData p = JNull)
   \<and> (user_payload p \<and> \<not> nullish p \<longrightarrow>
        truthy (prepareUserData p)
        \<and> get_prop (prepareUserData p) ''roles'' =
            (if nullish (get_prop p ''roles'') then JArr [] else get_prop p ''roles'')
        \<and> get_prop (prepareUserData p) ''permissions'' =
            (if nullish (get_prop p ''permissions'') then JArr [] else get_prop p ''permissions'')
        \<and> has_array_roles (prepareUserData p))
   \<and> (answers_user_payload net ''/user'' \<longrightarrow>
        (let u = user (snd (dispatch_signup net name email password confirmation (st, s)))
         in u = JNull \<or> has_array_roles u)
        \<and> (let u = user (snd (dispatch_checkAuth net (st, s)))
           in u = JNull \<or> has_array_roles u))
   \<and> (answers_user_payload net ''/api/user'' \<longrightarrow>
        (let u = user (snd (dispatch_login net email password rm (st, s)))
         in u = JNull \<or> has_array_roles u))"
proof (intro conjI impI)
  assume "nullish p"
  then show "prepareUserData p = JNull" by (rule prepareUserData_nullish)
next
  assume a: "user_payload p \<and> \<not> nullish p"
  then show "truthy (prepareUserData p)"
    and "get_prop (prepareUserData p) ''roles'' =
            (if nullish (get_prop p ''roles'') then JArr [] else get_prop p ''roles'')"
    and "get_prop (prepareUserData p) ''permissions'' =
            (if nullish (get_prop p ''permissions'') then JArr [] else get_prop p ''permissions'')"
    and "has_array_roles (prepareUserData p)"
    using prepareUserData_payload [of p] by blast+
next
  assume a: "answers_user_payload net ''/user''"
  show "let u = user (snd (dispatch_signup net name email password confirmation (st, s)))
         in u = JNull \<or> has_array_roles u"
    unfolding Let_def by (rule answered_user_ok [OF a signup_user])
  show "let u = user (snd (dispatch_checkAuth net (st, s)))
           in u = JNull \<or> has_array_roles u"
    unfolding Let_def by (rule answered_user_ok [OF a checkAuth_user])
next
  assume a: "answers_user_payload net ''/api/user''"
  show "let u = user (snd (dispatch_login net email password rm (st, s)))
         in u = JNull \<or> has_array_roles u"
    unfolding Let_def by (rule answered_user_ok [OF a login_user])
qed

theorem prepareUserData_witness:
  "nullish JNull \<and> prepareUserData JNull = JNull
   \<and> user_payload laravel_user \<and> \<not> nullish laravel_user
   \<and> get_prop (prepareUserData laravel_user) ''roles'' = JArr []
   \<and> get_prop (prepareUserData laravel_user) ''permissions'' = JArr [JStr ''view_secteurs'']
   \<and> user_payload (JObj [(''id'', JNum 2)])
   \<and> get_prop (prepareUserData (JObj [(''id'', JNum 2)])) ''roles'' = JArr []
   \<and> answers_user_payload backend_up ''/user'' \<and> answers_user_payload backend_up ''/api/user''
   \<and> has_array_roles (user (snd (dispatch_login backend_up (JStr ''a@b.com'') (JStr ''x'') (JBool True)
        (empty_storage, initialState empty_storage))))"
proof -
  have u: "user_payload laravel_user \<and> \<not> nullish laravel_user"
    by (simp add: laravel_user_def array_or_absent_def)
  have v: "user_payload (JObj [(''id'', JNum 2)]) \<and> \<not> nullish (JObj [(''id'', JNum 2)])"
    by (simp add: array_or_absent_def)
  have n: "answers_user_payload backend_up ''/user'' \<and> answers_user_payload backend_up ''/api/user''"
    by (simp add: answers_user_payload_def request_defs backend_up_def laravel_user_def
        array_or_absent_def)
  have l: "user (snd (dispatch_login backend_up (JStr ''a@b.com'') (JStr ''x'') (JBool True)
        (empty_storage, initialState empty_storage))) \<noteq> JNull"
    by (simp add: thunk_defs request_defs storage_defs backend_up_def laravel_user_def
        empty_storage_def)
  note a = prepareUserData_gives_array_roles_and_permissions [where p = JNull]
  note b = prepareUserData_gives_array_roles_and_permissions
    [where p = laravel_user and net = backend_up and email = "JStr ''a@b.com''"
       and password = "JStr ''x''" and rm = "JBool True" and st = empty_storage
       and s = "initialState empty_storage"]
  note c = prepareUserData_gives_array_roles_and_permissions [where p = "JObj [(''id'', JNum 2)]"]
  have a1: "prepareUserData JNull = JNull" using a by simp
  have b1: "get_prop (prepareUserData laravel_user) ''roles'' = JArr []
     \<and> get_prop (prepareUserData laravel_user) ''permissions'' = JArr [JStr ''view_secteurs'']"
    using b u by (simp add: laravel_user_def)
  have c1: "get_prop (prepareUserData (JObj [(''id'', JNum 2)])) ''roles'' = JArr []"
    using c v by simp
  have b2: "has_array_roles (user (snd (dispatch_login backend_up (JStr ''a@b.com'') (JStr ''x'') (JBool True)
        (empty_storage, initialState empty_storage))))"
    using b n l by (simp add: Let_def)
  show ?thesis using u v n a1 b1 c1 b2 by simp
qed


section \<open>Properties of the listing\<close>

subsection \<open>Sort selection\<close>

text \<open>
  Claim C6. Selecting a column that is not the current sort key gives that column,
  ascending. Selecting the current key turns ascending into descending and descending
  into ascending; so the first selection always changes the direction and the second
  one gives the original configuration back.
\<close>

theorem handleSort_alternates:
  "(sort_key (sortConfig st) \<noteq> c \<longrightarrow>
      sortConfig (handleSort c st) = \<lparr>sort_key = c, direction = ''asc''\<rparr>)
   \<and> (sort_key (sortConfig st) = c \<and> direction (sortConfig st) = ''asc'' \<longrightarrow>
      sortConfig (handleSort c st) = \<lparr>sort_key = c, direction = ''desc''\<rparr>)
   \<and> (sort_key (sortConfig st) = c \<and> direction (sortConfig st) = ''desc'' \<longrightarrow>
      sortConfig (handleSort c st) = \<lparr>sort_key = c, direction = ''asc''\<rparr>)
   \<and> (sort_key (sortConfig st) = c
       \<and> (direction (sortConfig st) = ''asc'' \<or> direction (sortConfig st) = ''desc'') \<longrightarrow>
      direction (sortConfig (handleSort c st)) \<noteq> direction (sortConfig st)
      \<and> sortConfig (handleSort c (handleSort c st)) = sortConfig st)"
  by (auto simp: handleSort_def)

theorem handleSort_witness:
  "sort_key (sortConfig initial_view) \<noteq> ''code''
   \<and> sortConfig (handleSort ''code'' initial_view) = \<lparr>sort_key = ''code'', direction = ''asc''\<rparr>
   \<and> sort_key (sortConfig initial_view) = ''intitule'' \<and> direction (sortConfig initial_view) = ''asc''
   \<and> sortConfig (handleSort ''intitule'' initial_view) = \<lparr>sort_key = ''intitule'', direction = ''desc''\<rparr>
   \<and> direction (sortConfig (handleSort ''intitule'' initial_view)) = ''desc''
   \<and> sortConfig (handleSort ''intitule'' (handleSort ''intitule'' initial_view))
       = \<lparr>sort_key = ''intitule'', direction = ''asc''\<rparr>
   \<and> sortConfig (handleSort ''intitule'' (handleSort ''intitule'' (handleSort ''intitule'' initial_view)))
       = \<lparr>sort_key = ''intitule'', direction = ''desc''\<rparr>"
proof -
  have k: "sort_key (sortConfig initial_view) = ''intitule''"
    and d: "direction (sortConfig initial_view) = ''asc''"
    by (simp_all add: initial_view_def)
  note a = handleSort_alternates [where st = initial_view and c = "''code''"]
  note b = handleSort_alternates [where st = initial_view and c = "''intitule''"]
  have b1: "sortConfig (handleSort ''intitule'' initial_view) = \<lparr>sort_key = ''intitule'', direction = ''desc''\<rparr>"
    using b k d by simp
  note c = handleSort_alternates [where st = "handleSort ''intitule'' initial_view" and c = "''intitule''"]
  have c1: "sortConfig (handleSort ''intitule'' (handleSort ''intitule'' initial_view))
       = \<lparr>sort_key = ''intitule'', direction = ''asc''\<rparr>"
    using c b1 by simp
  note e = handleSort_alternates
    [where st = "handleSort ''intitule'' (handleSort ''intitule'' initial_view)" and c = "''intitule''"]
  have e1: "sortConfig (handleSort ''intitule'' (handleSort ''intitule'' (handleSort ''intitule'' initial_view)))
       = \<lparr>sort_key = ''intitule'', direction = ''desc''\<rparr>"
    using e c1 by simp
  have a1: "sortConfig (handleSort ''code'' initial_view) = \<lparr>sort_key = ''code'', direction = ''asc''\<rparr>"
    using a k by simp
  show ?thesis using k d a1 b1 c1 e1 by simp
qed

subsection \<open>Search and filters\<close>

lemma text_rows_filter: "text_rows rows \<Longrightarrow> text_rows (filter P rows)"
  by (induction rows) (auto simp: text_rows_def)

lemma text_rows_not_nullish: "text_rows rows \<Longrightarrow> list_all (\<lambda>row. \<not> nullish row) rows"
  by (induction rows) (auto simp: text_rows_def)

lemma search_matches_text:
  assumes "\<not> nullish row" and "case get_prop row ''intitule'' of JStr s \<Rightarrow> True | v \<Rightarrow> nullish v"
    and "term \<noteq> []"
  shows "search_matches term row = Inr (matches_search term row)"
  using assms by (cases "get_prop row ''intitule''") (simp_all add: search_matches_def matches_search_def)

lemma filter_raising_text:
  assumes "text_rows rows" and "term \<noteq> []"
  shows "filter_raising (search_matches term) rows = Inr (filter (matches_search term) rows)"
  using assms(1)
proof (induction rows)
  case Nil
  then show ?case by simp
next
  case (Cons row rows)
  then have "search_matches term row = Inr (matches_search term row)" and "text_rows rows"
    using search_matches_text [OF _ _ assms(2), of row] by (simp_all add: text_rows_def)
  with Cons.IH show ?case by simp
qed

lemma apply_search_text:
  "text_rows rows \<Longrightarrow> apply_search term rows = Inr (filter (matches_search term) rows)"
  by (cases "term = []") (simp_all add: apply_search_def filter_raising_text matches_search_def)

lemma filter_raising_filter:
  "list_all (\<lambda>row. \<not> nullish row) rows \<Longrightarrow>
   filter_raising (filter_matches f) rows =
     Inr (filter (\<lambda>row. strict_equal (get_prop row (js_toString (filter_key f))) (filter_value f)) rows)"
  by (induction rows) (simp_all add: filter_matches_def)

lemma apply_filter_rows:
  assumes "list_all (\<lambda>row. \<not> nullish row) rows"
  shows "apply_filter f rows = Inr (filter (passes_filter f) rows)"
proof (cases "truthy (filter_value f)")
  case True
  then have "passes_filter f =
      (\<lambda>row. strict_equal (get_prop row (js_toString (filter_key f))) (filter_value f))"
    by (simp add: passes_filter_def fun_eq_iff)
  with True assms show ?thesis
    by (simp add: apply_filter_def filter_raising_filter)
next
  case False
  then show ?thesis
    by (simp add: apply_filter_def passes_filter_def)
qed

lemma list_all_filter: "list_all P rows \<Longrightarrow> list_all P (filter Q rows)"
  by (induction rows) auto

lemma apply_filters_rows:
  "list_all (\<lambda>row. \<not> nullish row) rows \<Longrightarrow>
   apply_filters fs rows = Inr (filter (\<lambda>row. list_all (\<lambda>f. passes_filter f row) fs) rows)"
proof (induction fs arbitrary: rows)
  case Nil
  then show ?case by simp
next
  case (Cons f fs)
  have "apply_filters (f # fs) rows = apply_filters fs (filter (passes_filter f) rows)"
    using Cons.prems by (simp add: apply_filter_rows)
  also have "\<dots> = Inr (filter (\<lambda>row. list_all (\<lambda>f. passes_filter f row) fs)
                       (filter (passes_filter f) rows))"
    using Cons.prems by (intro Cons.IH list_all_filter)
  also have "\<dots> = Inr (filter (\<lambda>row. list_all (\<lambda>f. passes_filter f row) (f # fs)) rows)"
    by (simp add: conj_commute)
  finally show ?case .
qed

text \<open>
  Claim C7. On the rows of a listing, for every filter set, search term, sort
  configuration and collation: the projection is the same whether the search or the
  column filters are applied first; it is the sort of the rows that match the search
  and pass every column filter; and with an empty search term it is the sort of the
  list restricted by the column filters only.
\<close>

theorem search_and_filters_commute:
  assumes "text_rows (secteurs st)"
  shows "applyFiltersAndSorting localeCompare st = filters_then_search localeCompare st
    \<and> applyFiltersAndSorting localeCompare st =
        apply_sort localeCompare (sortConfig st)
          (filter (\<lambda>row. matches_search (searchTerm st) row
                        \<and> list_all (\<lambda>f. passes_filter f row) (filters st)) (secteurs st))
    \<and> (searchTerm st = [] \<longrightarrow>
        applyFiltersAndSorting localeCompare st =
          (case apply_filters (filters st) (secteurs st) of
             Inl err \<Rightarrow> Inl err
           | Inr kept \<Rightarrow> apply_sort localeCompare (sortConfig st) kept))"
proof -
  let ?A = "matches_search (searchTerm st)"
  let ?B = "\<lambda>row. list_all (\<lambda>f. passes_filter f row) (filters st)"
  have n: "list_all (\<lambda>row. \<not> nullish row) (secteurs st)"
    using assms by (rule text_rows_not_nullish)
  have s1: "apply_search (searchTerm st) (secteurs st) = Inr (filter ?A (secteurs st))"
    using assms by (rule apply_search_text)
  have f1: "apply_filters (filters st) (filter ?A (secteurs st)) = Inr (filter ?B (filter ?A (secteurs st)))"
    using n by (intro apply_filters_rows list_all_filter)
  have f2: "apply_filters (filters st) (secteurs st) = Inr (filter ?B (secteurs st))"
    using n by (rule apply_filters_rows)
  have s2: "apply_search (searchTerm st) (filter ?B (secteurs st)) = Inr (filter ?A (filter ?B (secteurs st)))"
    using assms by (intro apply_search_text text_rows_filter)
  have c: "filter ?B (filter ?A (secteurs st)) = filter ?A (filter ?B (secteurs st))"
    by (simp add: conj_commute)
  have a: "applyFiltersAndSorting localeCompare st =
      apply_sort localeCompare (sortConfig st) (filter ?B (filter ?A (secteurs st)))"
    by (simp add: applyFiltersAndSorting_def s1 f1)
  have b: "filters_then_search localeCompare st =
      apply_sort localeCompare (sortConfig st) (filter ?A (filter ?B (secteurs st)))"
    by (simp add: filters_then_search_def f2 s2)
  have e: "searchTerm st = [] \<longrightarrow>
        applyFiltersAndSorting localeCompare st =
          (case apply_filters (filters st) (secteurs st) of
             Inl err \<Rightarrow> Inl err
           | Inr kept \<Rightarrow> apply_sort localeCompare (sortConfig st) kept)"
    by (simp add: applyFiltersAndSorting_def apply_search_def)
  show ?thesis
    using a b c e by (simp add: conj_commute)
qed

theorem search_and_filters_witness:
  "text_rows (secteurs example_view)
   \<and> applyFiltersAndSorting byte_compare example_view = filters_then_search byte_compare example_view
   \<and> applyFiltersAndSorting byte_compare example_view
       = Inr [secteur_row 1 ''Industrie'' ''Prive'', secteur_row 3 ''Informatique'' ''Prive'']
   \<and> searchTerm (handleSearch [] example_view) = []
   \<and> applyFiltersAndSorting byte_compare (handleSearch [] example_view)
       = Inr [JObj [(''id'', JNum 4), (''intitule'', JNull), (''secteur'', JStr ''Prive'')],
              secteur_row 1 ''Industrie'' ''Prive'', secteur_row 3 ''Informatique'' ''Prive'']"
proof -
  have t: "text_rows (secteurs example_view)"
    by (simp add: text_rows_def example_view_def example_rows_def secteur_row_def initial_view_def)
  have t': "text_rows (secteurs (handleSearch [] example_view))"
    by (simp add: text_rows_def example_view_def example_rows_def secteur_row_def initial_view_def handleSearch_def)
  have v: "applyFiltersAndSorting byte_compare example_view
       = Inr [secteur_row 1 ''Industrie'' ''Prive'', secteur_row 3 ''Informatique'' ''Prive'']"
    by (simp add: applyFiltersAndSorting_def filters_then_search_def apply_search_def
        apply_filter_def apply_sort_def search_matches_def filter_matches_def sort_value_def
        compare_rows_def stable_sort_def strict_equal_def toLowerCase_def toLowerCase_char_def
        byte_compare_def
        example_view_def example_rows_def secteur_row_def initial_view_def)
  have e: "searchTerm (handleSearch [] example_view) = []"
    by (simp add: handleSearch_def)
  have f: "apply_filters (filters (handleSearch [] example_view)) (secteurs (handleSearch [] example_view))
      = Inr [secteur_row 1 ''Industrie'' ''Prive'', secteur_row 3 ''Informatique'' ''Prive'',
             JObj [(''id'', JNum 4), (''intitule'', JNull), (''secteur'', JStr ''Prive'')]]"
    by (simp add: applyFiltersAndSorting_def filters_then_search_def apply_search_def
        apply_filter_def apply_sort_def search_matches_def filter_matches_def sort_value_def
        compare_rows_def stable_sort_def strict_equal_def toLowerCase_def toLowerCase_char_def
        byte_compare_def
        example_view_def example_rows_def secteur_row_def initial_view_def handleSearch_def)
  have w: "applyFiltersAndSorting byte_compare (handleSearch [] example_view)
       = Inr [JObj [(''id'', JNum 4), (''intitule'', JNull), (''secteur'', JStr ''Prive'')],
              secteur_row 1 ''Industrie'' ''Prive'', secteur_row 3 ''Informatique'' ''Prive'']"
    using search_and_filters_commute [OF t', of byte_compare] e f
    by (simp add: applyFiltersAndSorting_def filters_then_search_def apply_search_def
        apply_filter_def apply_sort_def search_matches_def filter_matches_def sort_value_def
        compare_rows_def stable_sort_def strict_equal_def toLowerCase_def toLowerCase_char_def
        byte_compare_def
        example_view_def example_rows_def secteur_row_def initial_view_def handleSearch_def)
  show ?thesis
    using t v e w search_and_filters_commute [OF t, of byte_compare] by simp
qed

subsection \<open>Filter options after a load\<close>

lemma strict_equal_eq: "strict_equal a b \<Longrightarrow> a = b"
  by (simp add: strict_equal_def)

lemma set_set_spread: "set (set_spread xs) = set xs"
proof (induction xs rule: set_spread.induct)
  case 1
  then show ?case by simp
next
  case (2 x xs)
  have "set (filter (\<lambda>y. \<not> strict_equal x y) xs) \<union> {x} = set xs \<union> {x}"
    using strict_equal_eq by auto
  with 2 show ?case by auto
qed

lemma distinct_set_spread:
  "list_all is_primitive xs \<Longrightarrow> distinct (set_spread xs)"
proof (induction xs rule: set_spread.induct)
  case 1
  then show ?case by simp
next
  case (2 x xs)
  have p: "list_all is_primitive (filter (\<lambda>y. \<not> strict_equal x y) xs)"
    using "2.prems" by (simp add: list_all_iff)
  have "x \<notin> set (filter (\<lambda>y. \<not> strict_equal x y) xs)"
    using "2.prems" by (simp add: strict_equal_def)
  with "2.IH" [OF p] show ?case
    by (simp add: set_set_spread)
qed

lemma loadSecteurs_array:
  assumes "SecteursService_getAll net = (sent, Inr (JArr rows))"
  shows "loadSecteurs net st =
     (case updateFilterOptions rows (filters st) of
        Inl err \<Rightarrow> (sent, Inl err)
      | Inr fs \<Rightarrow> (sent, Inr (st\<lparr>secteurs := rows, filters := fs\<rparr>)))"
  by (simp add: loadSecteurs_def assms)

text \<open>
  Claim C8 as stated fails for a load that returns an empty list. The hook has loaded
  two rows and offers their two values; the next load returns no row. The list is
  empty, its column has no value, and the filter still offers the two old values.
\<close>

theorem empty_load_keeps_stale_options:
  "snd (loadSecteurs (backend_secteurs [secteur_row 1 ''Industrie'' ''Prive'',
                                       secteur_row 2 ''Agriculture'' ''Public'']) initial_view)
     = Inr (initial_view\<lparr>secteurs := [secteur_row 1 ''Industrie'' ''Prive'',
                                        secteur_row 2 ''Agriculture'' ''Public''],
              filters := [\<lparr>filter_key = JStr ''secteur'', filter_value = JStr [],
                           placeholder = JStr ''Tous les secteurs'',
                           options = [JStr ''Prive'', JStr ''Public'']\<rparr>]\<rparr>)
   \<and> snd (loadSecteurs (backend_secteurs [])
        (initial_view\<lparr>secteurs := [secteur_row 1 ''Industrie'' ''Prive'',
                                     secteur_row 2 ''Agriculture'' ''Public''],
           filters := [\<lparr>filter_key = JStr ''secteur'', filter_value = JStr [],
                        placeholder = JStr ''Tous les secteurs'',
                        options = [JStr ''Prive'', JStr ''Public'']\<rparr>]\<rparr>))
     = Inr (initial_view\<lparr>secteurs := [],
              filters := [\<lparr>filter_key = JStr ''secteur'', filter_value = JStr [],
                           placeholder = JStr ''Tous les secteurs'',
                           options = [JStr ''Prive'', JStr ''Public'']\<rparr>]\<rparr>)
   \<and> set_spread (map (\<lambda>f. get_prop f ''secteur'') []) = []"
  by (simp add: loadSecteurs_def SecteursService_getAll_def apiClient_get_sends
      updateFilterOptions_def first_filter_def or_else_def strict_equal_def secteur_row_def initial_view_def
      backend_secteurs_def
      toLowerCase_def toLowerCase_char_def)

text \<open>
  Claim C8, amended. A load that returns a list with at least one row (none of them
  null or undefined) sets the list and leaves one filter, the first one, whose option
  list holds exactly the values of the \<open>secteur\<close> column of the rows just loaded, each
  once when they are primitive values. A load that returns an empty list sets the list
  and leaves the filters and their option lists as they were.
\<close>

theorem loadSecteurs_recomputes_options:
  assumes "SecteursService_getAll net = (sent, Inr (JArr rows))"
  shows "(rows \<noteq> [] \<and> \<not> list_ex nullish rows \<longrightarrow>
          (\<exists>opts. snd (loadSecteurs net st)
                     = Inr (st\<lparr>secteurs := rows,
                              filters := [(first_filter (filters st))\<lparr>options := opts\<rparr>]\<rparr>)
                \<and> set opts = (\<lambda>row. get_prop row ''secteur'') ` set rows
                \<and> (list_all (\<lambda>row. is_primitive (get_prop row ''secteur'')) rows \<longrightarrow> distinct opts)))
       \<and> (rows = [] \<longrightarrow> snd (loadSecteurs net st) = Inr (st\<lparr>secteurs := []\<rparr>))"
proof (intro conjI impI)
  assume a: "rows \<noteq> [] \<and> \<not> list_ex nullish rows"
  let ?opts = "set_spread (map (\<lambda>row. get_prop row ''secteur'') rows)"
  have "snd (loadSecteurs net st)
          = Inr (st\<lparr>secteurs := rows, filters := [(first_filter (filters st))\<lparr>options := ?opts\<rparr>]\<rparr>)"
    using a by (simp add: loadSecteurs_array [OF assms] updateFilterOptions_def)
  moreover have "set ?opts = (\<lambda>row. get_prop row ''secteur'') ` set rows"
    by (simp add: set_set_spread)
  moreover have "list_all (\<lambda>row. is_primitive (get_prop row ''secteur'')) rows \<longrightarrow> distinct ?opts"
    by (auto intro!: distinct_set_spread simp: list_all_iff)
  ultimately show "\<exists>opts. snd (loadSecteurs net st)
                     = Inr (st\<lparr>secteurs := rows,
                              filters := [(first_filter (filters st))\<lparr>options := opts\<rparr>]\<rparr>)
                \<and> set opts = (\<lambda>row. get_prop row ''secteur'') ` set rows
                \<and> (list_all (\<lambda>row. is_primitive (get_prop row ''secteur'')) rows \<longrightarrow> distinct opts)"
    by blast
next
  assume "rows = []"
  then show "snd (loadSecteurs net st) = Inr (st\<lparr>secteurs := []\<rparr>)"
    by (simp add: loadSecteurs_array [OF assms] updateFilterOptions_def)
qed

theorem loadSecteurs_options_witness:
  "SecteursService_getAll (backend_secteurs example_rows)
     = ([\<lparr>http_method = ''get'', url = ''/secteurs'', req_data = JUndefined\<rparr>], Inr (JArr example_rows))
   \<and> example_rows \<noteq> [] \<and> \<not> list_ex nullish example_rows
   \<and> list_all (\<lambda>row. is_primitive (get_prop row ''secteur'')) example_rows
   \<and> snd (loadSecteurs (backend_secteurs example_rows) initial_view)
       = Inr (initial_view\<lparr>secteurs := example_rows,
                filters := [\<lparr>filter_key = JStr ''secteur'', filter_value = JStr [],
                             placeholder = JStr ''Tous les secteurs'',
                             options = [JStr ''Prive'', JStr ''Public'']\<rparr>]\<rparr>)
   \<and> SecteursService_getAll (backend_secteurs [])
     = ([\<lparr>http_method = ''get'', url = ''/secteurs'', req_data = JUndefined\<rparr>], Inr (JArr []))
   \<and> snd (loadSecteurs (backend_secteurs []) example_view) = Inr (example_view\<lparr>secteurs := []\<rparr>)"
proof -
  have g: "SecteursService_getAll (backend_secteurs example_rows)
     = ([\<lparr>http_method = ''get'', url = ''/secteurs'', req_data = JUndefined\<rparr>], Inr (JArr example_rows))"
    by (simp add: SecteursService_getAll_def apiClient_get_sends or_else_def backend_secteurs_def
        toLowerCase_def toLowerCase_char_def)
  have h: "SecteursService_getAll (backend_secteurs [])
     = ([\<lparr>http_method = ''get'', url = ''/secteurs'', req_data = JUndefined\<rparr>], Inr (JArr []))"
    by (simp add: SecteursService_getAll_def apiClient_get_sends or_else_def backend_secteurs_def
        toLowerCase_def toLowerCase_char_def)
  have r: "example_rows \<noteq> [] \<and> \<not> list_ex nullish example_rows
     \<and> list_all (\<lambda>row. is_primitive (get_prop row ''secteur'')) example_rows"
    by (simp add: example_rows_def secteur_row_def)
  have v: "snd (loadSecteurs (backend_secteurs example_rows) initial_view)
       = Inr (initial_view\<lparr>secteurs := example_rows,
                filters := [\<lparr>filter_key = JStr ''secteur'', filter_value = JStr [],
                             placeholder = JStr ''Tous les secteurs'',
                             options = [JStr ''Prive'', JStr ''Public'']\<rparr>]\<rparr>)"
    by (subst loadSecteurs_array [OF g])
       (simp add: updateFilterOptions_def first_filter_def strict_equal_def example_rows_def secteur_row_def
          initial_view_def)
  have w: "snd (loadSecteurs (backend_secteurs []) example_view) = Inr (example_view\<lparr>secteurs := []\<rparr>)"
    using loadSecteurs_recomputes_options [OF h, of example_view] by simp
  have "\<exists>opts. snd (loadSecteurs (backend_secteurs example_rows) initial_view)
                  = Inr (initial_view\<lparr>secteurs := example_rows,
                           filters := [(first_filter (filters initial_view))\<lparr>options := opts\<rparr>]\<rparr>)
              \<and> set opts = (\<lambda>row. get_prop row ''secteur'') ` set example_rows
              \<and> distinct opts"
    using loadSecteurs_recomputes_options [OF g, of initial_view] r by simp
  then show ?thesis
    using g h r v w by simp
qed

subsection \<open>A failed deletion\<close>

lemma apiClient_request_sent:
  "c \<in> set (fst (apiClient_request net config)) \<Longrightarrow> c = config \<or> c = csrf_cookie_request"
proof (cases "requires_csrf config \<and> \<not> is_csrf_cookie_request config")
  case True
  assume "c \<in> set (fst (apiClient_request net config))"
  with True show ?thesis
    by (cases "net csrf_cookie_request") (auto simp: apiClient_request_primed)
next
  case False
  assume "c \<in> set (fst (apiClient_request net config))"
  with False show ?thesis
    using apiClient_request_unprimed [of config net] by auto
qed

lemma delete_sends_no_reload:
  "\<lparr>http_method = ''get'', url = ''/secteurs'', req_data = JUndefined\<rparr>
     \<notin> set (fst (SecteursService_delete net ident))"
proof
  let ?reload = "\<lparr>http_method = ''get'', url = ''/secteurs'', req_data = JUndefined\<rparr>"
  assume "?reload \<in> set (fst (SecteursService_delete net ident))"
  then have "?reload \<in> set (fst (apiClient_delete net (''/secteurs/'' @ js_toString ident)))"
    by (simp add: SecteursService_delete_def split: prod.splits sum.splits)
  then have "?reload = \<lparr>http_method = ''delete'', url = ''/secteurs/'' @ js_toString ident,
                          req_data = JUndefined\<rparr>
             \<or> ?reload = csrf_cookie_request"
    unfolding apiClient_delete_def by (rule apiClient_request_sent)
  then show False
    by (simp add: csrf_cookie_request_def csrf_cookie_path_def)
qed

lemma error_text_backend_message:
  assumes "response e = Some r" and "get_prop (data r) ''message'' = JStr m" and "m \<noteq> []"
  shows "error_text e = JStr m"
proof -
  have "\<not> nullish (data r)" using assms(2) by (cases "data r") simp_all
  then show ?thesis using assms by (simp add: error_text_def or_else_def)
qed

text \<open>
  Claim C9. A deletion is pending and the service's delete call fails with the error
  \<open>e\<close>. Then the handler leaves the whole state of the hook as it was, the
  authoritative list included; the only requests sent are those of the delete call,
  and the reload request (GET /secteurs) is not among them; and one alert is shown:
  "Erreur lors de la suppression du secteur: " followed by the backend's message when
  the response carries one, by the error's own message otherwise.
\<close>

theorem failed_delete_leaves_list_and_alerts:
  assumes "truthy (secteurToDelete st)"
    and "snd (SecteursService_delete net (get_prop (secteurToDelete st) ''id'')) = Inl e"
  shows "snd (snd (handleDeleteConfirm net st)) = Inr st
    \<and> fst (handleDeleteConfirm net st)
        = fst (SecteursService_delete net (get_prop (secteurToDelete st) ''id''))
    \<and> \<lparr>http_method = ''get'', url = ''/secteurs'', req_data = JUndefined\<rparr>
        \<notin> set (fst (handleDeleteConfirm net st))
    \<and> fst (snd (handleDeleteConfirm net st))
        = [''Erreur lors de la suppression du secteur: '' @ js_toString (error_text e)]
    \<and> (\<forall>r m. response e = Some r \<and> get_prop (data r) ''message'' = JStr m \<and> m \<noteq> [] \<longrightarrow>
          fst (snd (handleDeleteConfirm net st))
            = [''Erreur lors de la suppression du secteur: '' @ m])
    \<and> (response e = None \<longrightarrow>
          fst (snd (handleDeleteConfirm net st))
            = [''Erreur lors de la suppression du secteur: '' @ message e])"
proof -
  obtain sent where d: "SecteursService_delete net (get_prop (secteurToDelete st) ''id'') = (sent, Inl e)"
    using assms(2) by (cases "SecteursService_delete net (get_prop (secteurToDelete st) ''id'')") simp
  have h: "handleDeleteConfirm net st =
      (sent, [''Erreur lors de la suppression du secteur: '' @ js_toString (error_text e)], Inr st)"
    using assms(1) by (simp add: handleDeleteConfirm_def d)
  have n: "\<lparr>http_method = ''get'', url = ''/secteurs'', req_data = JUndefined\<rparr> \<notin> set sent"
    using delete_sends_no_reload [of net "get_prop (secteurToDelete st) ''id''"] by (simp add: d)
  have m: "\<forall>r m. response e = Some r \<and> get_prop (data r) ''message'' = JStr m \<and> m \<noteq> [] \<longrightarrow>
      js_toString (error_text e) = m"
    by (auto simp: error_text_backend_message)
  have t: "response e = None \<longrightarrow> js_toString (error_text e) = message e"
    by (simp add: error_text_def or_else_def)
  show ?thesis
    using n m t by (simp add: h d)
qed

theorem failed_delete_witness:
  "truthy (secteurToDelete example_view)
   \<and> snd (SecteursService_delete (backend_secteurs example_rows)
            (get_prop (secteurToDelete example_view) ''id'')) = Inl deletion_refused
   \<and> snd (snd (handleDeleteConfirm (backend_secteurs example_rows) example_view)) = Inr example_view
   \<and> fst (handleDeleteConfirm (backend_secteurs example_rows) example_view)
       = [csrf_cookie_request,
          \<lparr>http_method = ''delete'', url = ''/secteurs/2'', req_data = JUndefined\<rparr>]
   \<and> fst (snd (handleDeleteConfirm (backend_secteurs example_rows) example_view))
       = [''Erreur lors de la suppression du secteur: Ce secteur est encore utilise.'']"
proof -
  have a: "truthy (secteurToDelete example_view)"
    by (simp add: example_view_def secteur_row_def)
  have i: "get_prop (secteurToDelete example_view) ''id'' = JNum 2"
    by (simp add: example_view_def secteur_row_def)
  have u: "js_toString (JNum 2) = ''2''"
    by (simp add: digit_char_def)
  have r: "requires_csrf \<lparr>http_method = ''delete'', url = ''/secteurs/2'', req_data = JUndefined\<rparr>"
    by (simp add: requires_csrf_def methodsRequiringCSRF_def toLowerCase_def toLowerCase_char_def)
  have c: "\<not> is_csrf_cookie_request \<lparr>http_method = ''delete'', url = ''/secteurs/2'', req_data = JUndefined\<rparr>"
    by (simp add: is_csrf_cookie_request_def csrf_cookie_path_def)
  have d: "SecteursService_delete (backend_secteurs example_rows) (JNum 2)
      = ([csrf_cookie_request,
          \<lparr>http_method = ''delete'', url = ''/secteurs/2'', req_data = JUndefined\<rparr>],
         Inl deletion_refused)"
    unfolding SecteursService_delete_def apiClient_delete_def u
    by (simp add: apiClient_request_primed [OF r c] backend_secteurs_def csrf_cookie_request_def
        toLowerCase_def toLowerCase_char_def)
  have b: "snd (SecteursService_delete (backend_secteurs example_rows)
            (get_prop (secteurToDelete example_view) ''id'')) = Inl deletion_refused"
    by (simp add: i d)
  have m: "response deletion_refused
             = Some \<lparr>status_code = 409, data = JObj [(''message'', JStr ''Ce secteur est encore utilise.'')]\<rparr>
     \<and> get_prop (data \<lparr>status_code = 409, data = JObj [(''message'', JStr ''Ce secteur est encore utilise.'')]\<rparr>)
          ''message'' = JStr ''Ce secteur est encore utilise.''
     \<and> ''Ce secteur est encore utilise.'' \<noteq> []"
    by (simp add: deletion_refused_def)
  note t = failed_delete_leaves_list_and_alerts [OF a b]
  have t1: "snd (snd (handleDeleteConfirm (backend_secteurs example_rows) example_view)) = Inr example_view"
    using t by blast
  have t2: "fst (handleDeleteConfirm (backend_secteurs example_rows) example_view)
       = [csrf_cookie_request,
          \<lparr>http_method = ''delete'', url = ''/secteurs/2'', req_data = JUndefined\<rparr>]"
    using t by (simp add: i d)
  have "fst (snd (handleDeleteConfirm (backend_secteurs example_rows) example_view))
       = [''Erreur lors de la suppression du secteur: '' @ ''Ce secteur est encore utilise.'']"
    using t m by blast
  then have t3: "fst (snd (handleDeleteConfirm (backend_secteurs example_rows) example_view))
       = [''Erreur lors de la suppression du secteur: Ce secteur est encore utilise.'']"
    by simp
  show ?thesis
    using a b t1 t2 t3 by blast
qed

end
